theory Spec2Isabelle
  imports Complex_Main "HOL-Library.Sublist"
begin

section \<open>Python values used by \<open>bin/infer.py\<close>\<close>

text \<open>
  Python exceptions are values. \<open>ValueError\<close> carries its message, \<open>KeyError\<close> the
  missing key, \<open>IndexError\<close> a short description of the failed index operation.
\<close>

datatype error = ValueError string | KeyError string | IndexError string

text \<open>
  The command line flags of the script (the \<open>tf.flags.DEFINE_*\<close> block). A string flag
  whose default is \<open>None\<close> is an option.
\<close>

record flags =
  source :: "string option"
  model_dir :: "string option"
  checkpoint_path :: "string option"
  delimiter :: string
  batch_size :: int
  input_pipeline_def :: "string option"
  hparams :: "string option"
  unk_replace :: bool
  unk_mapping :: "string option"
  dump_attention_dir :: "string option"
  dump_attention_no_plot :: "string option"
  dump_beams :: "string option"

definition FLAGS_default :: flags where
  "FLAGS_default =
     \<lparr> source = None, model_dir = None, checkpoint_path = None, delimiter = '' '',
       batch_size = 32, input_pipeline_def = None, hparams = None, unk_replace = False,
       unk_mapping = None, dump_attention_dir = None, dump_attention_no_plot = None,
       dump_beams = None \<rparr>"

text \<open>
  A token array as the model returns it: one-dimensional (one token per time step) or,
  with beam search, two-dimensional (one row per time step, one column per beam).
\<close>

datatype tokens = Tokens1 "string list" | Tokens2 "string list list"

text \<open>
  The dictionary of one prediction, as \<open>create_predictions_iter\<close> yields it. After the
  filtering in \<open>main\<close> it can hold the eight keys below and no other; a key that is absent
  is \<open>None\<close>, and subscripting it raises \<open>KeyError\<close>. The element type of the attention
  scores (\<open>'s\<close>) and the type of a beam search array (\<open>'b\<close>) are left open: the script
  only slices and stores them.
\<close>

record ('s, 'b) predictions_dict =
  predicted_tokens :: "tokens option"
  features_source_len :: "int option"
  features_source_tokens :: "string list option"
  attention_scores :: "'s list list option"
  beam_search_output_predicted_ids :: "'b option"
  beam_search_output_beam_parent_ids :: "'b option"
  beam_search_output_scores :: "'b option"
  beam_search_output_log_probs :: "'b option"

definition getitem :: "'a option \<Rightarrow> string \<Rightarrow> error + 'a" where
  \<comment> \<open>\<open>d[key]\<close>\<close>
  "getitem v key = (case v of None \<Rightarrow> Inl (KeyError key) | Some x \<Rightarrow> Inr x)"

definition SEQUENCE_END :: string where
  "SEQUENCE_END = ''SEQUENCE_END''"

definition py_slice_to :: "int \<Rightarrow> 'a list \<Rightarrow> 'a list" where
  \<comment> \<open>\<open>xs[:n]\<close>: a negative stop counts from the end, and the stop is clipped to the length\<close>
  "py_slice_to n xs = take (nat (if n < 0 then int (length xs) + n else n)) xs"

subsection \<open>\<open>get_prediction_length\<close>\<close>

text \<open>
  \<open>next(((i + 1) for i, _ in tokens_iter if _ == "SEQUENCE_END"), default)\<close> over a
  one-dimensional array: the elements are strings.
\<close>

fun next_end :: "nat \<Rightarrow> string list \<Rightarrow> nat \<Rightarrow> nat" where
  "next_end i [] dflt = dflt"
| "next_end i (t # ts) dflt =
     (if t = SEQUENCE_END then i + 1 else next_end (i + 1) ts dflt)"

text \<open>
  Over a two-dimensional array the elements are rows, \<open>_ == "SEQUENCE_END"\<close> is an array of
  booleans, and the \<open>if\<close> of the generator asks numpy for its truth value: that of its
  single element, false for an empty one, and a \<open>ValueError\<close> for any longer one.
\<close>

definition ambiguous_truth :: string where
  "ambiguous_truth =
     ''The truth value of an array with more than one element is ambiguous. '' @
     ''Use a.any() or a.all()''"

fun row_is_end :: "string list \<Rightarrow> error + bool" where
  "row_is_end [] = Inr False"
| "row_is_end [t] = Inr (t = SEQUENCE_END)"
| "row_is_end (t # u # us) = Inl (ValueError ambiguous_truth)"

fun next_end_rows :: "nat \<Rightarrow> string list list \<Rightarrow> nat \<Rightarrow> error + nat" where
  "next_end_rows i [] dflt = Inr dflt"
| "next_end_rows i (r # rs) dflt =
     (case row_is_end r of
        Inl e \<Rightarrow> Inl e
      | Inr b \<Rightarrow> if b then Inr (i + 1) else next_end_rows (i + 1) rs dflt)"

definition get_prediction_length :: "('s, 'b) predictions_dict \<Rightarrow> error + nat" where
  "get_prediction_length d =
     (case getitem (predicted_tokens d) ''predicted_tokens'' of
        Inl e \<Rightarrow> Inl e
      | Inr (Tokens1 ts) \<Rightarrow> Inr (next_end 0 ts (length ts))
      | Inr (Tokens2 rows) \<Rightarrow> next_end_rows 0 rows (length rows))"

subsection \<open>\<open>get_scores\<close> and \<open>create_figure\<close>\<close>

definition get_scores :: "('s, 'b) predictions_dict \<Rightarrow> error + 's list list" where
  "get_scores d =
     (case get_prediction_length d of
        Inl e \<Rightarrow> Inl e
      | Inr prediction_len \<Rightarrow>
     (case getitem (features_source_len d) ''features.source_len'' of
        Inl e \<Rightarrow> Inl e
      | Inr source_len \<Rightarrow>
     (case getitem (attention_scores d) ''attention_scores'' of
        Inl e \<Rightarrow> Inl e
      | Inr att \<Rightarrow>
          Inr (map (py_slice_to source_len) (py_slice_to (int prediction_len) att)))))"

text \<open>
  A figure is what \<open>create_figure\<close> hands to the plotting library: the matrix shown by
  \<open>imshow\<close> and the positions and labels of the ticks of both axes.
\<close>

record 's figure =
  imshow_X :: "'s list list"
  xticks_pos :: "nat list"
  xticks_labels :: "string list"
  yticks_pos :: "nat list"
  yticks_labels :: tokens

definition create_figure :: "('s, 'b) predictions_dict \<Rightarrow> error + 's figure" where
  "create_figure d =
     (case getitem (predicted_tokens d) ''predicted_tokens'' of
        Inl e \<Rightarrow> Inl e
      | Inr target_words \<Rightarrow>
     (case get_prediction_length d of
        Inl e \<Rightarrow> Inl e
      | Inr prediction_len \<Rightarrow>
     (case getitem (features_source_len d) ''features.source_len'' of
        Inl e \<Rightarrow> Inl e
      | Inr source_len \<Rightarrow>
     (case getitem (features_source_tokens d) ''features.source_tokens'' of
        Inl e \<Rightarrow> Inl e
      | Inr source_toks \<Rightarrow>
     (case getitem (attention_scores d) ''attention_scores'' of
        Inl e \<Rightarrow> Inl e
      | Inr att \<Rightarrow>
          Inr \<lparr> imshow_X = map (py_slice_to source_len) (py_slice_to (int prediction_len) att),
                xticks_pos = [0 ..< nat source_len],
                xticks_labels = py_slice_to source_len source_toks,
                yticks_pos = [0 ..< prediction_len],
                yticks_labels = target_words \<rparr>)))))"

subsection \<open>String operations of the decode loop\<close>

fun py_join :: "string \<Rightarrow> string list \<Rightarrow> string" where
  \<comment> \<open>\<open>delim.join(tokens)\<close>\<close>
  "py_join delim [] = []"
| "py_join delim [t] = t"
| "py_join delim (t # u # us) = t @ delim @ py_join delim (u # us)"

text \<open>
  \<open>s.split(sep)\<close> and \<open>s.replace(old, new)\<close> scan from the left and skip each occurrence
  they find. The script passes the constants \<open>"SEQUENCE_END"\<close> and \<open>"@@ "\<close>; the behaviour
  of Python on an empty separator or pattern is not modelled (an empty one never matches
  here).
\<close>

function py_split_acc :: "string \<Rightarrow> string \<Rightarrow> string \<Rightarrow> string list" where
  "py_split_acc sep acc [] = [rev acc]"
| "py_split_acc sep acc (c # cs) =
     (if sep \<noteq> [] \<and> prefix sep (c # cs)
      then rev acc # py_split_acc sep [] (drop (length sep) (c # cs))
      else py_split_acc sep (c # acc) cs)"
  by pat_completeness auto
termination
  by (relation "measure (\<lambda>(sep, acc, s). length s)") auto

definition py_split :: "string \<Rightarrow> string \<Rightarrow> string list" where
  "py_split sep s = py_split_acc sep [] s"

function py_replace :: "string \<Rightarrow> string \<Rightarrow> string \<Rightarrow> string" where
  "py_replace old new [] = []"
| "py_replace old new (c # cs) =
     (if old \<noteq> [] \<and> prefix old (c # cs)
      then new @ py_replace old new (drop (length old) (c # cs))
      else c # py_replace old new cs)"
  by pat_completeness auto
termination
  by (relation "measure (\<lambda>(old, new, s). length s)") auto

definition isspace :: "char \<Rightarrow> bool" where
  \<comment> \<open>\<open>str.isspace\<close> on the code points below 256\<close>
  "isspace c = (of_char c \<in> {9, 10, 11, 12, 13, 28, 29, 30, 31, 32, 133, 160 :: nat})"

definition py_strip :: "string \<Rightarrow> string" where
  "py_strip s = rev (dropWhile isspace (rev (dropWhile isspace s)))"

definition make_sent :: "string \<Rightarrow> string list \<Rightarrow> string" where
  \<comment> \<open>lines 236 to 239: join, cut at the end marker, drop the BPE markers, strip\<close>
  "make_sent delim toks =
     py_strip (py_replace ''@@ '' '''' (hd (py_split SEQUENCE_END (py_join delim toks))))"

subsection \<open>File names\<close>

fun decimal :: "nat \<Rightarrow> string" where
  "decimal n =
     (if n < 10 then [char_of (48 + n)] else decimal (n div 10) @ [char_of (48 + n mod 10)])"

definition format_05d :: "nat \<Rightarrow> string" where
  \<comment> \<open>\<open>"{:05d}".format(idx)\<close>\<close>
  "format_05d n = replicate (5 - length (decimal n)) CHR ''0'' @ decimal n"

definition path_join :: "string \<Rightarrow> string \<Rightarrow> string" where
  \<comment> \<open>\<open>os.path.join(a, b)\<close> for a relative \<open>b\<close>\<close>
  "path_join a b = (if a = [] \<or> last a = CHR ''/'' then a @ b else a @ ''/'' @ b)"

section \<open>\<open>main\<close>\<close>

text \<open>
  What the script does to the outside, in order: the directory it creates, the figures it
  saves (\<open>plt.savefig\<close>), the sentences it prints and the two archives it writes with
  \<open>np.savez\<close>, one from positional arrays and one from named arrays. Log messages are
  left out. An archive is a zip file, and its writer says how the members are kept:
  \<open>np.savez\<close> stores them as they are (\<open>ZIP_STORED\<close>), and it is \<open>np.savez_compressed\<close>,
  which the script does not call, that compresses them (\<open>ZIP_DEFLATED\<close>).
\<close>

datatype zip_compression = ZIP_STORED | ZIP_DEFLATED

datatype ('s, 'b) io =
    MakeDirs string
  | Savefig string "'s figure"
  | Print string
  | Savez_args zip_compression string "'s list list list"
  | Savez_kwds zip_compression string "(string \<times> 'b list) list"

record 'b beam_accum =
  predicted_ids :: "'b list"
  beam_parent_ids :: "'b list"
  scores :: "'b list"
  log_probs :: "'b list"

record ('s, 'b) accum =
  attention_scores_accum :: "'s list list list"
  beam_accum :: "'b beam_accum"

subsection \<open>Before the session: key filtering and the UNK replacement function\<close>

definition unk_replace_error :: string where
  \<comment> \<open>the message of lines 146 and 147, with its line break and the 23 spaces after it\<close>
  "unk_replace_error =
     ''To perform UNK replacement you must use a model'' @ [CHR 0x0A] @
     replicate 23 (CHR '' '') @ ''class that outputs attention scores.''"

definition filter_predictions :: "(string \<rightharpoonup> 't) \<Rightarrow> string set \<Rightarrow> (string \<rightharpoonup> 't)" where
  \<comment> \<open>\<open>{k: v for k, v in predictions.items() if k in prediction_keys}\<close>\<close>
  "filter_predictions predictions prediction_keys =
     (\<lambda>k. if k \<in> prediction_keys then predictions k else None)"

definition prediction_keys :: "flags \<Rightarrow> string set" where
  \<comment> \<open>lines 131 to 140\<close>
  "prediction_keys F =
     (let keys = set [''predicted_tokens'', ''features.source_len'',
                      ''features.source_tokens'', ''attention_scores'']
      in if dump_beams F \<noteq> None
         then keys \<union> set [''beam_search_output.predicted_ids'',
                            ''beam_search_output.beam_parent_ids'',
                            ''beam_search_output.scores'',
                            ''beam_search_output.log_probs'']
         else keys)"

text \<open>
  \<open>predictions\<close> is the dictionary that \<open>create_inference_graph\<close> returned. The two
  functions of \<open>seq2seq.inference\<close> that the script imports are parameters:
  \<open>unk_replace_ext mapping\<close> is \<open>functools.partial(unk_replace, mapping=mapping)\<close>, taking
  the source tokens, the predicted tokens and the attention scores.
\<close>

definition main_setup ::
  "flags \<Rightarrow> (string \<rightharpoonup> 't) \<Rightarrow> ('m option \<Rightarrow> 'f) \<Rightarrow> (string \<Rightarrow> 'm)
     \<Rightarrow> error + ((string \<rightharpoonup> 't) \<times> 'f option)" where
  "main_setup F predictions unk_replace_ext get_unk_mapping =
     (if unk_replace F then
        (if predictions ''attention_scores'' = None then Inl (ValueError unk_replace_error)
         else
           let keys = insert ''attention_scores'' (prediction_keys F);
               mapping = (case unk_mapping F of None \<Rightarrow> None | Some p \<Rightarrow> Some (get_unk_mapping p))
           in Inr (filter_predictions predictions keys, Some (unk_replace_ext mapping)))
      else Inr (filter_predictions predictions (prediction_keys F), None))"

subsection \<open>One prediction\<close>

definition first_beam :: "tokens \<Rightarrow> error + string list" where
  \<comment> \<open>lines 196 and 197: \<open>predicted_tokens[:, 0]\<close> when \<open>np.ndim(predicted_tokens) > 1\<close>\<close>
  "first_beam t =
     (case t of
        Tokens1 ts \<Rightarrow> Inr ts
      | Tokens2 rows \<Rightarrow>
          if [] \<in> set rows
          then Inl (IndexError ''index 0 is out of bounds for axis 1 with size 0'')
          else Inr (map (\<lambda>r. r ! 0) rows))"

definition output_tokens ::
  "(string list \<Rightarrow> string list \<Rightarrow> 's list list \<Rightarrow> string list) option
     \<Rightarrow> ('s, 'b) predictions_dict \<Rightarrow> error + string list" where
  \<comment> \<open>lines 191 to 212: the tokens the sentence is made of; decoding the byte strings
      to unicode (lines 191 and 199) leaves the tokens as they are\<close>
  "output_tokens unk_replace_fn d =
     (case getitem (predicted_tokens d) ''predicted_tokens'' of
        Inl e \<Rightarrow> Inl e
      | Inr ptoks \<Rightarrow>
     (case first_beam ptoks of
        Inl e \<Rightarrow> Inl e
      | Inr toks \<Rightarrow>
     (case getitem (features_source_tokens d) ''features.source_tokens'' of
        Inl e \<Rightarrow> Inl e
      | Inr source_toks \<Rightarrow>
     (case getitem (features_source_len d) ''features.source_len'' of
        Inl e \<Rightarrow> Inl e
      | Inr source_len \<Rightarrow>
     (case unk_replace_fn of
        None \<Rightarrow> Inr toks
      | Some f \<Rightarrow>
     (case getitem (attention_scores d) ''attention_scores'' of
        Inl e \<Rightarrow> Inl e
      | Inr att \<Rightarrow> Inr (f source_toks toks (map (py_slice_to (source_len - 1)) att))))))))"

definition dump_attention ::
  "flags \<Rightarrow> nat \<Rightarrow> ('s, 'b) predictions_dict \<Rightarrow> 's list list list
     \<Rightarrow> ('s, 'b) io list \<times> (error + 's list list list)" where
  \<comment> \<open>lines 215 to 223; an unset or empty \<open>dump_attention_no_plot\<close> is false\<close>
  "dump_attention F idx d acc =
     (case dump_attention_dir F of
        None \<Rightarrow> ([], Inr acc)
      | Some dir \<Rightarrow>
          if dump_attention_no_plot F = None \<or> dump_attention_no_plot F = Some []
          then
            (case create_figure d of
               Inl e \<Rightarrow> ([], Inl e)
             | Inr fig \<Rightarrow>
                 let ev = [Savefig (path_join dir (format_05d idx @ ''.png'')) fig]
                 in (case get_scores d of
                       Inl e \<Rightarrow> (ev, Inl e)
                     | Inr s \<Rightarrow> (ev, Inr (acc @ [s]))))
          else
            (case get_scores d of
               Inl e \<Rightarrow> ([], Inl e)
             | Inr s \<Rightarrow> ([], Inr (acc @ [s]))))"

definition dump_beams_step ::
  "flags \<Rightarrow> ('s, 'b) predictions_dict \<Rightarrow> 'b beam_accum \<Rightarrow> error + 'b beam_accum" where
  \<comment> \<open>lines 226 to 234\<close>
  "dump_beams_step F d acc =
     (case dump_beams F of
        None \<Rightarrow> Inr acc
      | Some path \<Rightarrow>
     (case getitem (beam_search_output_predicted_ids d) ''beam_search_output.predicted_ids'' of
        Inl e \<Rightarrow> Inl e
      | Inr ids \<Rightarrow>
     (case getitem (beam_search_output_beam_parent_ids d) ''beam_search_output.beam_parent_ids'' of
        Inl e \<Rightarrow> Inl e
      | Inr parents \<Rightarrow>
     (case getitem (beam_search_output_scores d) ''beam_search_output.scores'' of
        Inl e \<Rightarrow> Inl e
      | Inr sc \<Rightarrow>
     (case getitem (beam_search_output_log_probs d) ''beam_search_output.log_probs'' of
        Inl e \<Rightarrow> Inl e
      | Inr lp \<Rightarrow>
          Inr \<lparr> predicted_ids = predicted_ids acc @ [ids],
                beam_parent_ids = beam_parent_ids acc @ [parents],
                scores = scores acc @ [sc],
                log_probs = log_probs acc @ [lp] \<rparr>)))))"

definition loop_body ::
  "flags \<Rightarrow> (string list \<Rightarrow> string list \<Rightarrow> 's list list \<Rightarrow> string list) option \<Rightarrow> nat
     \<Rightarrow> ('s, 'b) predictions_dict \<Rightarrow> ('s, 'b) accum
     \<Rightarrow> ('s, 'b) io list \<times> (error + ('s, 'b) accum)" where
  "loop_body F unk_replace_fn idx d st =
     (case output_tokens unk_replace_fn d of
        Inl e \<Rightarrow> ([], Inl e)
      | Inr toks \<Rightarrow>
     (case dump_attention F idx d (attention_scores_accum st) of
        (ev, Inl e) \<Rightarrow> (ev, Inl e)
      | (ev, Inr att_acc) \<Rightarrow>
     (case dump_beams_step F d (beam_accum st) of
        Inl e \<Rightarrow> (ev, Inl e)
      | Inr b_acc \<Rightarrow>
          (ev @ [Print (make_sent (delimiter F) toks)],
           Inr \<lparr> attention_scores_accum = att_acc, beam_accum = b_acc \<rparr>))))"

subsection \<open>The loop and the archives\<close>

fun run_loop ::
  "flags \<Rightarrow> (string list \<Rightarrow> string list \<Rightarrow> 's list list \<Rightarrow> string list) option \<Rightarrow> nat
     \<Rightarrow> ('s, 'b) predictions_dict list \<Rightarrow> ('s, 'b) accum
     \<Rightarrow> ('s, 'b) io list \<times> (error + ('s, 'b) accum)" where
  "run_loop F unk_replace_fn idx [] st = ([], Inr st)"
| "run_loop F unk_replace_fn idx (d # ds) st =
     (case loop_body F unk_replace_fn idx d st of
        (ev, Inl e) \<Rightarrow> (ev, Inl e)
      | (ev, Inr st') \<Rightarrow>
          (case run_loop F unk_replace_fn (idx + 1) ds st' of (evs, r) \<Rightarrow> (ev @ evs, r)))"

definition write_attention :: "flags \<Rightarrow> ('s, 'b) accum \<Rightarrow> ('s, 'b) io list" where
  \<comment> \<open>lines 244 to 247\<close>
  "write_attention F st =
     (case dump_attention_dir F of
        None \<Rightarrow> []
      | Some dir \<Rightarrow>
          [Savez_args ZIP_STORED (path_join dir ''attention_scores.npz'')
             (attention_scores_accum st)])"

definition write_beams :: "flags \<Rightarrow> ('s, 'b) accum \<Rightarrow> ('s, 'b) io list" where
  \<comment> \<open>lines 249 and 250: \<open>np.savez(FLAGS.dump_beams, **beam_accum)\<close>\<close>
  "write_beams F st =
     (case dump_beams F of
        None \<Rightarrow> []
      | Some path \<Rightarrow>
          [Savez_kwds ZIP_STORED path
             [(''predicted_ids'', predicted_ids (beam_accum st)),
              (''beam_parent_ids'', beam_parent_ids (beam_accum st)),
              (''scores'', scores (beam_accum st)),
              (''log_probs'', log_probs (beam_accum st))]])"

definition accum_init :: "('s, 'b) accum" where
  \<comment> \<open>lines 175 and 180 to 185\<close>
  "accum_init =
     \<lparr> attention_scores_accum = [],
       beam_accum = \<lparr> predicted_ids = [], beam_parent_ids = [], scores = [], log_probs = [] \<rparr> \<rparr>"

text \<open>
  \<open>main\<close> returns the effects it had and the exception it ended with, if any. Building the
  graph, restoring the checkpoint and running the session belong to the framework:
  \<open>predictions\<close> is what \<open>create_inference_graph\<close> returned, and
  \<open>create_predictions_iter\<close> gives the predictions fetched for the filtered dictionary.
\<close>

definition main ::
  "flags \<Rightarrow> (string \<rightharpoonup> 't) \<Rightarrow> ((string \<rightharpoonup> 't) \<Rightarrow> ('s, 'b) predictions_dict list)
     \<Rightarrow> ('m option \<Rightarrow> string list \<Rightarrow> string list \<Rightarrow> 's list list \<Rightarrow> string list)
     \<Rightarrow> (string \<Rightarrow> 'm) \<Rightarrow> ('s, 'b) io list \<times> error option" where
  "main F predictions create_predictions_iter unk_replace_ext get_unk_mapping =
     (case main_setup F predictions unk_replace_ext get_unk_mapping of
        Inl e \<Rightarrow> ([], Some e)
      | Inr (fetched, unk_replace_fn) \<Rightarrow>
          let mk = (case dump_attention_dir F of None \<Rightarrow> [] | Some dir \<Rightarrow> [MakeDirs dir])
          in (case run_loop F unk_replace_fn 0 (create_predictions_iter fetched) accum_init of
                (evs, Inl e) \<Rightarrow> (mk @ evs, Some e)
              | (evs, Inr st) \<Rightarrow> (mk @ evs @ write_attention F st @ write_beams F st, None)))"

subsection \<open>Reading the effects\<close>

fun printed :: "('s, 'b) io list \<Rightarrow> string list" where
  \<comment> \<open>the lines written to standard output, in order\<close>
  "printed [] = []"
| "printed (Print s # evs) = s # printed evs"
| "printed (ev # evs) = printed evs"

fun named_archives ::
  "('s, 'b) io list \<Rightarrow> (zip_compression \<times> string \<times> (string \<times> 'b list) list) list" where
  \<comment> \<open>the archives of named arrays written, in order: compression, file and contents\<close>
  "named_archives [] = []"
| "named_archives (Savez_kwds c path arrays # evs) = (c, path, arrays) # named_archives evs"
| "named_archives (ev # evs) = named_archives evs"


section \<open>Learning rate decay (\<open>seq2seq.training.utils\<close>)\<close>

text \<open>
  Modelled from the spec: \<open>create_learning_rate_decay_fn\<close> is defined in
  \<open>seq2seq/training/utils.py\<close>, which is not among the sources; only its test
  (\<open>TestLRDecay\<close>) is. The spec describes the function it returns for the decay type
  \<open>"exponential_decay"\<close> as "the exact piecewise exponential formula for learning-rate
  decay including pre-start, in-range, and post-stop clamping, plus clamping to a minimum
  rate". The model clamps the global step into the interval from \<open>start_decay_at\<close> to
  \<open>stop_decay_at\<close>, decays the initial rate exponentially in the steps since
  \<open>start_decay_at\<close>, and clamps the result from below when a minimum rate is given. Rates
  are real numbers: the rounding of the framework's floating point numbers is not
  modelled. The arguments are those of the calls in the test, without \<open>staircase\<close>, which
  the tests switch off.
\<close>

definition exponential_decay_fn ::
  "int \<Rightarrow> real \<Rightarrow> int \<Rightarrow> int \<Rightarrow> real option \<Rightarrow> real \<Rightarrow> int \<Rightarrow> real" where
  \<comment> \<open>Modelled from the spec: the function \<open>create_learning_rate_decay_fn\<close> returns for
      \<open>"exponential_decay"\<close>, applied to the initial rate and the global step\<close>
  "exponential_decay_fn decay_steps decay_rate start_decay_at stop_decay_at min_learning_rate
       learning_rate global_step =
     (let clamped_step = max start_decay_at (min global_step stop_decay_at);
          decayed = learning_rate *
            decay_rate powr (real_of_int (clamped_step - start_decay_at) / real_of_int decay_steps)
      in case min_learning_rate of None \<Rightarrow> decayed | Some m \<Rightarrow> max decayed m)"

section \<open>UNK replacement (\<open>seq2seq.inference\<close>)\<close>

text \<open>
  Modelled from the spec: \<open>unk_replace\<close> is defined in the package \<open>seq2seq.inference\<close>,
  which is not among the sources; \<open>bin/infer.py\<close> only imports and calls it. The spec
  describes it as "a table lookup/copy based on externally computed attention scores",
  "substituting an unknown-word placeholder token with a source word chosen via attention
  alignment". The model goes through the predicted tokens and the rows of the attention
  scores together. A token \<open>UNK\<close> becomes the source token at the position of the first
  highest score of its row (the copy), or what the mapping holds for that source token
  when a mapping is given and has it (the table lookup). Every other token is kept. The
  spec does not say what happens for a row without scores or a position outside the
  source tokens; the model keeps the token there.
\<close>

fun argmax_from :: "nat \<Rightarrow> 'a::linorder \<Rightarrow> nat \<Rightarrow> 'a list \<Rightarrow> nat" where
  \<comment> \<open>the position of the first highest value, the best so far being \<open>best\<close> at \<open>best_i\<close>\<close>
  "argmax_from best_i best i [] = best_i"
| "argmax_from best_i best i (x # xs) =
     (if best < x then argmax_from i x (i + 1) xs else argmax_from best_i best (i + 1) xs)"

fun replace_token ::
  "(string \<rightharpoonup> string) option \<Rightarrow> string list \<Rightarrow> string \<times> 'a::linorder list \<Rightarrow> string" where
  \<comment> \<open>Modelled from the spec: what \<open>unk_replace\<close> does to one token and its row of scores\<close>
  "replace_token mapping source_tokens (token, []) = token"
| "replace_token mapping source_tokens (token, x # xs) =
     (if token = ''UNK'' \<and> argmax_from 0 x 1 xs < length source_tokens
      then
        (let chosen = source_tokens ! argmax_from 0 x 1 xs
         in case mapping of
              None \<Rightarrow> chosen
            | Some table \<Rightarrow> (case table chosen of None \<Rightarrow> chosen | Some t \<Rightarrow> t))
      else token)"

definition inference_unk_replace ::
  "(string \<rightharpoonup> string) option \<Rightarrow> string list \<Rightarrow> string list \<Rightarrow> 'a::linorder list list
     \<Rightarrow> string list" where
  \<comment> \<open>Modelled from the spec: \<open>seq2seq.inference.unk_replace\<close>, which is not among the
      sources; the arguments are the mapping, the source tokens, the predicted tokens
      and the attention scores\<close>
  "inference_unk_replace mapping source_tokens predicted att =
     map (replace_token mapping source_tokens) (zip predicted att)"

section \<open>Inputs for the examples\<close>

definition no_keys :: "('s, 'b) predictions_dict" where
  "no_keys =
     \<lparr> predicted_tokens = None, features_source_len = None, features_source_tokens = None,
       attention_scores = None, beam_search_output_predicted_ids = None,
       beam_search_output_beam_parent_ids = None, beam_search_output_scores = None,
       beam_search_output_log_probs = None \<rparr>"

definition fetch_all ::
  "('s, 'b) predictions_dict list \<Rightarrow> (string \<rightharpoonup> 't) \<Rightarrow> ('s, 'b) predictions_dict list" where
  \<comment> \<open>a session that yields the given predictions\<close>
  "fetch_all ds fetched = ds"

definition no_mapping :: "string \<Rightarrow> unit" where
  "no_mapping path = ()"

text \<open>
  A replacement function for the examples: every \<open>UNK\<close> token becomes the source token at
  the position of the first highest score in its row of the attention scores it is
  given; other tokens, and rows without scores, are kept.
\<close>

fun copy_source :: "string list \<Rightarrow> string \<times> nat list \<Rightarrow> string" where
  "copy_source source_toks (t, []) = t"
| "copy_source source_toks (t, x # xs) =
     (if t = ''UNK'' \<and> argmax_from 0 x 1 xs < length source_toks
      then source_toks ! argmax_from 0 x 1 xs else t)"

definition unk_copy :: "unit option \<Rightarrow> string list \<Rightarrow> string list \<Rightarrow> nat list list \<Rightarrow> string list" where
  "unk_copy mapping source_toks toks att = map (copy_source source_toks) (zip toks att)"

definition greedy_example :: "(nat, nat) predictions_dict" where
  \<comment> \<open>a prediction of greedy decoding\<close>
  "greedy_example =
     no_keys \<lparr> predicted_tokens := Some (Tokens1 [''hello'', ''wor@@'', ''ld'', ''SEQUENCE_END'']),
               features_source_len := Some 3,
               features_source_tokens := Some [''hallo'', ''welt'', ''SEQUENCE_END''] \<rparr>"

definition beam_example :: "(nat, nat) predictions_dict" where
  \<comment> \<open>a prediction of beam search with two beams\<close>
  "beam_example =
     \<lparr> predicted_tokens =
         Some (Tokens2 [[''the'', ''a''], [''UNK'', ''house''], [''SEQUENCE_END'', ''SEQUENCE_END'']]),
       features_source_len = Some 3,
       features_source_tokens = Some [''das'', ''Haus'', ''SEQUENCE_END''],
       attention_scores = Some [[5, 1, 0], [1, 2, 9], [0, 0, 7]],
       beam_search_output_predicted_ids = Some 11,
       beam_search_output_beam_parent_ids = Some 12,
       beam_search_output_scores = Some 13,
       beam_search_output_log_probs = Some 14 \<rparr>"

definition empty_source_example :: "(nat, nat) predictions_dict" where
  \<comment> \<open>a prediction whose source length is zero, in a batch padded to three positions\<close>
  "empty_source_example =
     no_keys \<lparr> predicted_tokens := Some (Tokens1 [''UNK'']),
               features_source_len := Some 0,
               features_source_tokens := Some [''a'', ''b'', ''c''],
               attention_scores := Some [[1, 5, 2]] \<rparr>"

definition no_table :: "string \<Rightarrow> (string \<rightharpoonup> string)" where
  \<comment> \<open>a mapping file without entries\<close>
  "no_table path = Map.empty"

definition graph_example :: "string \<rightharpoonup> nat" where
  \<comment> \<open>the keys of a graph with attention and beam search\<close>
  "graph_example =
     [''predicted_tokens'' \<mapsto> 0, ''attention_scores'' \<mapsto> 1, ''logits'' \<mapsto> 2,
      ''beam_search_output.scores'' \<mapsto> 3]"

section \<open>Properties of \<open>get_prediction_length\<close>\<close>

lemma next_end_notin: "SEQUENCE_END \<notin> set ts \<Longrightarrow> next_end i ts dflt = dflt"
  by (induction ts arbitrary: i) auto

lemma next_end_first:
  "k < length ts \<Longrightarrow> ts ! k = SEQUENCE_END \<Longrightarrow> \<forall>j<k. ts ! j \<noteq> SEQUENCE_END
     \<Longrightarrow> next_end i ts dflt = i + k + 1"
proof (induction ts arbitrary: i k)
  case Nil
  then show ?case by simp
next
  case (Cons t ts)
  show ?case
  proof (cases k)
    case 0
    with Cons.prems show ?thesis by simp
  next
    case (Suc k')
    from Cons.prems Suc have "t \<noteq> SEQUENCE_END" by auto
    moreover have "next_end (i + 1) ts dflt = (i + 1) + k' + 1"
      using Cons.prems Suc by (intro Cons.IH) auto
    ultimately show ?thesis using Suc by simp
  qed
qed

lemma next_end_bound: "i + length ts \<le> dflt \<Longrightarrow> next_end i ts dflt \<le> dflt"
  by (induction ts arbitrary: i) auto

text \<open>
  On a one-dimensional token array \<open>get_prediction_length\<close> does what its docstring
  says: it returns \<open>k + 1\<close> where \<open>k\<close> is the index of the first occurrence of
  \<open>"SEQUENCE_END"\<close>, returns the length of the array when there is no such token, and
  in any case returns a number that does not exceed this length.
\<close>

theorem get_prediction_length_one_dimensional:
  assumes "predicted_tokens d = Some (Tokens1 ts)"
  shows "(\<forall>k. k < length ts \<and> ts ! k = SEQUENCE_END \<and> (\<forall>j<k. ts ! j \<noteq> SEQUENCE_END)
            \<longrightarrow> get_prediction_length d = Inr (k + 1))
       \<and> (SEQUENCE_END \<notin> set ts \<longrightarrow> get_prediction_length d = Inr (length ts))
       \<and> (\<exists>n. get_prediction_length d = Inr n \<and> n \<le> length ts)"
proof -
  have eq: "get_prediction_length d = Inr (next_end 0 ts (length ts))"
    using assms by (simp add: get_prediction_length_def getitem_def)
  have first: "\<forall>k. k < length ts \<and> ts ! k = SEQUENCE_END \<and> (\<forall>j<k. ts ! j \<noteq> SEQUENCE_END)
                 \<longrightarrow> get_prediction_length d = Inr (k + 1)"
    using next_end_first [where i = 0 and ts = ts] by (simp add: eq)
  have none: "SEQUENCE_END \<notin> set ts \<longrightarrow> get_prediction_length d = Inr (length ts)"
    by (simp add: eq next_end_notin)
  have "next_end 0 ts (length ts) \<le> length ts"
    by (rule next_end_bound) simp
  then have bound: "\<exists>n. get_prediction_length d = Inr n \<and> n \<le> length ts"
    by (simp add: eq)
  from first none bound show ?thesis by blast
qed

theorem get_prediction_length_one_dimensional_witness:
  "predicted_tokens (no_keys \<lparr>predicted_tokens := Some (Tokens1 [''a'', ''SEQUENCE_END'', ''b'', ''SEQUENCE_END''])\<rparr>
       :: (nat, nat) predictions_dict)
     = Some (Tokens1 [''a'', ''SEQUENCE_END'', ''b'', ''SEQUENCE_END''])
   \<and> get_prediction_length (no_keys \<lparr>predicted_tokens := Some (Tokens1 [''a'', ''SEQUENCE_END'', ''b'', ''SEQUENCE_END''])\<rparr>
       :: (nat, nat) predictions_dict) = Inr (1 + 1)"
proof -
  let ?ts = "[''a'', ''SEQUENCE_END'', ''b'', ''SEQUENCE_END'']"
  let ?d = "no_keys \<lparr>predicted_tokens := Some (Tokens1 ?ts)\<rparr> :: (nat, nat) predictions_dict"
  have h: "predicted_tokens ?d = Some (Tokens1 ?ts)"
    by simp
  have first: "1 < length ?ts \<and> ?ts ! 1 = SEQUENCE_END \<and> (\<forall>j<1. ?ts ! j \<noteq> SEQUENCE_END)"
    by (simp add: SEQUENCE_END_def)
  from get_prediction_length_one_dimensional [OF h]
  have "\<forall>k. k < length ?ts \<and> ?ts ! k = SEQUENCE_END \<and> (\<forall>j<k. ?ts ! j \<noteq> SEQUENCE_END)
          \<longrightarrow> get_prediction_length ?d = Inr (k + 1)"
    by (rule conjunct1)
  with first have "get_prediction_length ?d = Inr (1 + 1)"
    by blast
  with h show ?thesis by blast
qed

text \<open>
  The same holds of a two-dimensional array with a single beam, whose rows hold one
  token each.
\<close>

lemma next_end_rows_single_beam:
  "next_end_rows i (map (\<lambda>t. [t]) ts) dflt = Inr (next_end i ts dflt)"
  by (induction ts arbitrary: i) auto

lemma get_prediction_length_single_beam:
  assumes "predicted_tokens d = Some (Tokens2 (map (\<lambda>t. [t]) ts))"
  shows "get_prediction_length d = Inr (next_end 0 ts (length ts))"
  using assms
  by (simp add: get_prediction_length_def getitem_def next_end_rows_single_beam)

text \<open>
  C9. For every predictions dictionary \<open>get_prediction_length\<close> should return the
  index of the first \<open>"SEQUENCE_END"\<close> plus one, or the length of \<open>predicted_tokens\<close>
  when there is none, as its docstring says. On the two-dimensional token array of a
  beam search with more than one beam it does not return: the generator compares a
  whole row with \<open>"SEQUENCE_END"\<close>, numpy refuses to give the resulting array a truth
  value, and the function raises \<open>ValueError\<close>.
\<close>

theorem get_prediction_length_two_beams_raises:
  "get_prediction_length
     (no_keys \<lparr>predicted_tokens := Some (Tokens2 [[''a'', ''b''], [''SEQUENCE_END'', ''c'']])\<rparr>
        :: (nat, nat) predictions_dict)
     = Inl (ValueError ambiguous_truth)"
  by (simp add: get_prediction_length_def getitem_def no_keys_def)

text \<open>
  Such an array reaches the function: \<open>main\<close> hands the whole dictionary of a beam
  search prediction to \<open>create_figure\<close> when attention scores are dumped.
\<close>

lemma attention_dump_of_beam_search_raises:
  "main (FLAGS_default \<lparr>dump_attention_dir := Some ''att''\<rparr>) graph_example
       (fetch_all [beam_example]) unk_copy no_mapping
     = ([MakeDirs ''att''], Some (ValueError ambiguous_truth))"
  by code_simp

section \<open>Output key filtering\<close>

lemma dom_filter_predictions: "dom (filter_predictions p ks) = dom p \<inter> ks"
  by (auto simp: filter_predictions_def dom_def split: if_splits)

lemma filter_predictions_kept: "k \<in> dom (filter_predictions p ks) \<Longrightarrow> filter_predictions p ks k = p k"
  by (auto simp: filter_predictions_def dom_def split: if_splits)

lemma prediction_keys_allowed:
  "prediction_keys F =
     {''predicted_tokens'', ''features.source_len'', ''features.source_tokens'', ''attention_scores''}
     \<union> (if dump_beams F \<noteq> None
        then {''beam_search_output.predicted_ids'', ''beam_search_output.beam_parent_ids'',
              ''beam_search_output.scores'', ''beam_search_output.log_probs''}
        else {})"
  by (auto simp: prediction_keys_def Let_def)

lemma main_setup_fetched:
  assumes "main_setup F predictions unk_replace_ext get_unk_mapping = Inr (fetched, unk_replace_fn)"
  shows "fetched = filter_predictions predictions (prediction_keys F)"
proof -
  have "insert ''attention_scores'' (prediction_keys F) = prediction_keys F"
    by (auto simp: prediction_keys_def Let_def)
  with assms show ?thesis
    by (auto simp: main_setup_def Let_def split: if_splits)
qed

text \<open>
  C2. Whenever \<open>main\<close> gets as far as fetching predictions, the dictionary it keeps has
  exactly the keys that are both in the original dictionary and in the allowed key set
  (the four basic keys, and the four \<open>beam_search_output.*\<close> keys as well when
  \<open>dump_beams\<close> is set), and every kept key maps to its original value.
\<close>

theorem output_key_filtering_is_intersection:
  assumes "main_setup F predictions unk_replace_ext get_unk_mapping = Inr (fetched, unk_replace_fn)"
  shows "dom fetched = dom predictions \<inter>
           ({''predicted_tokens'', ''features.source_len'', ''features.source_tokens'',
             ''attention_scores''}
            \<union> (if dump_beams F \<noteq> None
               then {''beam_search_output.predicted_ids'', ''beam_search_output.beam_parent_ids'',
                     ''beam_search_output.scores'', ''beam_search_output.log_probs''}
               else {}))
       \<and> (\<forall>k \<in> dom fetched. fetched k = predictions k)"
proof -
  have fetched: "fetched = filter_predictions predictions (prediction_keys F)"
    using assms by (rule main_setup_fetched)
  have keys: "dom fetched = dom predictions \<inter> prediction_keys F"
    by (simp only: fetched dom_filter_predictions)
  have vals: "\<forall>k \<in> dom fetched. fetched k = predictions k"
    by (simp only: fetched) (blast intro: filter_predictions_kept)
  from keys [unfolded prediction_keys_allowed] vals show ?thesis
    by (rule conjI)
qed

theorem output_key_filtering_is_intersection_witness:
  "main_setup (FLAGS_default \<lparr>dump_beams := Some ''beams.npz''\<rparr>)
       [''predicted_tokens'' \<mapsto> 1 :: nat, ''logits'' \<mapsto> 2, ''beam_search_output.scores'' \<mapsto> 3]
       unk_copy no_mapping
     = Inr (filter_predictions
              [''predicted_tokens'' \<mapsto> 1, ''logits'' \<mapsto> 2, ''beam_search_output.scores'' \<mapsto> 3]
              (prediction_keys (FLAGS_default \<lparr>dump_beams := Some ''beams.npz''\<rparr>)), None)
   \<and> dom (filter_predictions
            [''predicted_tokens'' \<mapsto> 1 :: nat, ''logits'' \<mapsto> 2, ''beam_search_output.scores'' \<mapsto> 3]
            (prediction_keys (FLAGS_default \<lparr>dump_beams := Some ''beams.npz''\<rparr>)))
     = {''predicted_tokens'', ''beam_search_output.scores''}"
proof -
  let ?F = "FLAGS_default \<lparr>dump_beams := Some ''beams.npz''\<rparr>"
  let ?p = "[''predicted_tokens'' \<mapsto> 1 :: nat, ''logits'' \<mapsto> 2, ''beam_search_output.scores'' \<mapsto> 3]"
  have h: "main_setup ?F ?p unk_copy no_mapping = Inr (filter_predictions ?p (prediction_keys ?F), None)"
    by (simp add: main_setup_def FLAGS_default_def)
  have d: "dom ?p = {''predicted_tokens'', ''logits'', ''beam_search_output.scores''}"
    by auto
  from output_key_filtering_is_intersection [OF h]
  have "dom (filter_predictions ?p (prediction_keys ?F)) = dom ?p \<inter>
           ({''predicted_tokens'', ''features.source_len'', ''features.source_tokens'',
             ''attention_scores''}
            \<union> (if dump_beams ?F \<noteq> None
               then {''beam_search_output.predicted_ids'', ''beam_search_output.beam_parent_ids'',
                     ''beam_search_output.scores'', ''beam_search_output.log_probs''}
               else {}))"
    by (rule conjunct1)
  then have "dom (filter_predictions ?p (prediction_keys ?F))
               = {''predicted_tokens'', ''beam_search_output.scores''}"
    unfolding d by (auto simp: FLAGS_default_def)
  with h show ?thesis by (rule conjI)
qed

section \<open>The exceptions \<open>main\<close> ends with\<close>




















section \<open>The decode loop\<close>

lemma printed_append: "printed (xs @ ys) = printed xs @ printed ys"
  by (induction xs rule: printed.induct) auto

lemma named_archives_append: "named_archives (xs @ ys) = named_archives xs @ named_archives ys"
  by (induction xs rule: named_archives.induct) auto

lemma dump_attention_quiet:
  "dump_attention F idx d acc = (ev, r) \<Longrightarrow> printed ev = [] \<and> named_archives ev = []"
  by (auto simp: dump_attention_def Let_def split: option.splits sum.splits if_splits)

lemma loop_body_done:
  assumes "loop_body F unk_replace_fn idx d st = (ev, Inr st')"
  shows "\<exists>toks. output_tokens unk_replace_fn d = Inr toks
           \<and> printed ev = [make_sent (delimiter F) toks]
           \<and> named_archives ev = []
           \<and> dump_beams_step F d (beam_accum st) = Inr (beam_accum st')"
proof -
  from assms obtain toks where toks: "output_tokens unk_replace_fn d = Inr toks"
    by (cases "output_tokens unk_replace_fn d") (auto simp: loop_body_def)
  obtain ev1 r1 where att: "dump_attention F idx d (attention_scores_accum st) = (ev1, r1)"
    by (cases "dump_attention F idx d (attention_scores_accum st)")
  from assms toks att obtain a where r1: "r1 = Inr a"
    by (cases r1) (auto simp: loop_body_def)
  from assms toks att r1 obtain b where b: "dump_beams_step F d (beam_accum st) = Inr b"
    by (cases "dump_beams_step F d (beam_accum st)") (auto simp: loop_body_def)
  from assms toks att r1 b
  have ev: "ev = ev1 @ [Print (make_sent (delimiter F) toks)]" and st': "beam_accum st' = b"
    by (auto simp: loop_body_def)
  from att have "printed ev1 = [] \<and> named_archives ev1 = []"
    by (rule dump_attention_quiet)
  with ev have "printed ev = [make_sent (delimiter F) toks] \<and> named_archives ev = []"
    by (simp add: printed_append named_archives_append)
  with toks b st' show ?thesis by simp
qed

lemma loop_body_failed:
  assumes "loop_body F unk_replace_fn idx d st = (ev, Inl e)"
  shows "printed ev = [] \<and> named_archives ev = []"
proof -
  obtain ev1 r1 where att: "dump_attention F idx d (attention_scores_accum st) = (ev1, r1)"
    by (cases "dump_attention F idx d (attention_scores_accum st)")
  then have quiet: "printed ev1 = [] \<and> named_archives ev1 = []"
    by (rule dump_attention_quiet)
  from assms att have "ev = [] \<or> ev = ev1"
    by (auto simp: loop_body_def split: sum.splits)
  with quiet show ?thesis by auto
qed

lemma run_loop_printed:
  "run_loop F unk_replace_fn idx ds st = (evs, r) \<Longrightarrow>
     length (printed evs) \<le> length ds
     \<and> list_all2 (\<lambda>d s. \<exists>toks. output_tokens unk_replace_fn d = Inr toks
                              \<and> s = make_sent (delimiter F) toks)
         (take (length (printed evs)) ds) (printed evs)
     \<and> (\<forall>st'. r = Inr st' \<longrightarrow> length (printed evs) = length ds)
     \<and> named_archives evs = []"
proof (induction ds arbitrary: idx st evs r)
  case Nil
  then show ?case by auto
next
  case (Cons d ds)
  obtain ev1 r1 where body: "loop_body F unk_replace_fn idx d st = (ev1, r1)"
    by (cases "loop_body F unk_replace_fn idx d st")
  show ?case
  proof (cases r1)
    case (Inl e)
    with body Cons.prems have "evs = ev1" "r = Inl e" by auto
    moreover from body Inl have "printed ev1 = [] \<and> named_archives ev1 = []"
      by (auto dest: loop_body_failed)
    ultimately show ?thesis by simp
  next
    case (Inr st1)
    obtain evs2 r2 where rest: "run_loop F unk_replace_fn (idx + 1) ds st1 = (evs2, r2)"
      by (cases "run_loop F unk_replace_fn (idx + 1) ds st1")
    from body Inr rest Cons.prems have evs: "evs = ev1 @ evs2" and r: "r = r2" by auto
    from body Inr obtain toks where toks: "output_tokens unk_replace_fn d = Inr toks"
      and ev1: "printed ev1 = [make_sent (delimiter F) toks]" "named_archives ev1 = []"
      by (auto dest: loop_body_done)
    from Cons.IH [OF rest] evs r toks ev1 show ?thesis
      by (simp add: printed_append named_archives_append)
  qed
qed

lemma py_split_acc_nonempty: "py_split_acc sep acc s \<noteq> []"
  by (induction sep acc s rule: py_split_acc.induct) auto

lemma py_split_acc_no_occurrence:
  "\<forall>ys zs. s \<noteq> ys @ sep @ zs \<Longrightarrow> py_split_acc sep acc s = [rev acc @ s]"
proof (induction s arbitrary: acc)
  case Nil
  then show ?case by simp
next
  case (Cons c cs)
  have "\<not> prefix sep (c # cs)"
  proof
    assume "prefix sep (c # cs)"
    then obtain zs where "c # cs = [] @ sep @ zs"
      by (auto simp: prefix_def)
    with Cons.prems show False by blast
  qed
  moreover have "\<forall>ys zs. cs \<noteq> ys @ sep @ zs"
  proof (intro allI notI)
    fix ys zs
    assume "cs = ys @ sep @ zs"
    then have "c # cs = (c # ys) @ sep @ zs" by simp
    with Cons.prems show False by blast
  qed
  ultimately show ?case
    using Cons.IH [of "c # acc"] by simp
qed

lemma py_replace_no_occurrence:
  "\<forall>ys zs. s \<noteq> ys @ old @ zs \<Longrightarrow> py_replace old new s = s"
proof (induction s)
  case Nil
  then show ?case by simp
next
  case (Cons c cs)
  have "\<not> prefix old (c # cs)"
  proof
    assume "prefix old (c # cs)"
    then obtain zs where "c # cs = [] @ old @ zs"
      by (auto simp: prefix_def)
    with Cons.prems show False by blast
  qed
  moreover have "\<forall>ys zs. cs \<noteq> ys @ old @ zs"
  proof (intro allI notI)
    fix ys zs
    assume "cs = ys @ old @ zs"
    then have "c # cs = (c # ys) @ old @ zs" by simp
    with Cons.prems show False by blast
  qed
  ultimately show ?case
    using Cons.IH by simp
qed

lemma py_strip_no_space:
  assumes "s \<noteq> []" "\<not> isspace (hd s)" "\<not> isspace (last s)"
  shows "py_strip s = s"
proof -
  from assms have "dropWhile isspace s = s"
    by (cases s) auto
  moreover from assms have "dropWhile isspace (rev s) = rev s"
    by (cases "rev s") (auto simp: last_rev [symmetric] simp del: last_rev)
  ultimately show ?thesis
    by (simp add: py_strip_def)
qed

text \<open>
  When the joined string holds no end marker and no BPE marker and neither starts nor
  ends with white space, the sentence is the joined string itself.
\<close>

lemma make_sent_plain:
  assumes "\<forall>ys zs. py_join delim toks \<noteq> ys @ SEQUENCE_END @ zs"
      and "\<forall>ys zs. py_join delim toks \<noteq> ys @ ''@@ '' @ zs"
      and "py_join delim toks \<noteq> []"
      and "\<not> isspace (hd (py_join delim toks))" "\<not> isspace (last (py_join delim toks))"
  shows "make_sent delim toks = py_join delim toks"
  using assms
  by (simp add: make_sent_def py_split_def py_split_acc_no_occurrence
        py_replace_no_occurrence py_strip_no_space)

lemma makedirs_quiet:
  "printed (case dir of None \<Rightarrow> [] | Some p \<Rightarrow> [MakeDirs p]) = []"
  "named_archives (case dir of None \<Rightarrow> [] | Some p \<Rightarrow> [MakeDirs p]) = []"
  by (simp_all split: option.splits)

lemma write_attention_quiet:
  "printed (write_attention F st) = []" "named_archives (write_attention F st) = []"
  by (simp_all add: write_attention_def split: option.splits)

lemma write_beams_printed: "printed (write_beams F st) = []"
  by (simp add: write_beams_def split: option.splits)

lemma main_printed:
  assumes run: "main F predictions create_predictions_iter unk_replace_ext get_unk_mapping = (evs, r)"
      and ms: "main_setup F predictions unk_replace_ext get_unk_mapping = Inr (fetched, unk_replace_fn)"
  shows "\<exists>evs' r'. run_loop F unk_replace_fn 0 (create_predictions_iter fetched) accum_init = (evs', r')
           \<and> printed evs = printed evs' \<and> (r = None \<longleftrightarrow> (\<exists>st. r' = Inr st))"
proof -
  obtain evs' r' where loop:
    "run_loop F unk_replace_fn 0 (create_predictions_iter fetched) accum_init = (evs', r')"
    by (cases "run_loop F unk_replace_fn 0 (create_predictions_iter fetched) accum_init")
  from run ms loop have "printed evs = printed evs' \<and> (r = None \<longleftrightarrow> (\<exists>st. r' = Inr st))"
    by (cases r')
      (auto simp: main_def Let_def printed_append makedirs_quiet write_attention_quiet
         write_beams_printed)
  with loop show ?thesis by blast
qed

text \<open>
  C3, as amended. The sentences written to standard output are, in order, those of the
  predictions iterated so far, and of all of them when \<open>main\<close> ends without an
  exception. The sentence of a prediction is made from its predicted tokens (beam 0,
  after the optional UNK replacement) joined on the delimiter flag, whose default is a
  single space: the joined string is cut before the first \<open>"SEQUENCE_END"\<close>, every
  \<open>"@@ "\<close> is removed from it, and white space is stripped from both ends.
\<close>

theorem printed_sentence_is_cut_join:
  assumes "main F predictions create_predictions_iter unk_replace_ext get_unk_mapping = (evs, r)"
      and "main_setup F predictions unk_replace_ext get_unk_mapping = Inr (fetched, unk_replace_fn)"
  shows "list_all2
           (\<lambda>d s. \<exists>toks. output_tokens unk_replace_fn d = Inr toks
                    \<and> s = py_strip (py_replace ''@@ '' ''''
                              (hd (py_split ''SEQUENCE_END'' (py_join (delimiter F) toks)))))
           (take (length (printed evs)) (create_predictions_iter fetched)) (printed evs)
       \<and> (r = None \<longrightarrow> length (printed evs) = length (create_predictions_iter fetched))
       \<and> delimiter FLAGS_default = '' ''"
proof -
  from main_printed [OF assms] obtain evs' r' where
    loop: "run_loop F unk_replace_fn 0 (create_predictions_iter fetched) accum_init = (evs', r')"
    and same: "printed evs = printed evs'" and fin: "r = None \<longleftrightarrow> (\<exists>st. r' = Inr st)"
    by blast
  from run_loop_printed [OF loop] same fin show ?thesis
    by (auto simp: make_sent_def SEQUENCE_END_def FLAGS_default_def)
qed

theorem printed_sentence_is_cut_join_witness:
  "main FLAGS_default graph_example (fetch_all [greedy_example]) unk_copy no_mapping
     = ([Print ''hello world''], None)
   \<and> main_setup FLAGS_default graph_example unk_copy no_mapping
     = Inr (filter_predictions graph_example (prediction_keys FLAGS_default), None)
   \<and> length (printed [Print ''hello world'' :: (nat, nat) io])
     = length (fetch_all [greedy_example]
         (filter_predictions graph_example (prediction_keys FLAGS_default)))"
proof -
  have run: "main FLAGS_default graph_example (fetch_all [greedy_example]) unk_copy no_mapping
               = ([Print ''hello world''], None)"
    by code_simp
  have ms: "main_setup FLAGS_default graph_example unk_copy no_mapping
              = Inr (filter_predictions graph_example (prediction_keys FLAGS_default), None)"
    by (simp add: main_setup_def FLAGS_default_def)
  from printed_sentence_is_cut_join [OF run ms]
  have "(None :: error option) = None \<longrightarrow>
          length (printed [Print ''hello world'' :: (nat, nat) io])
            = length (fetch_all [greedy_example]
                (filter_predictions graph_example (prediction_keys FLAGS_default)))"
    by blast
  then have "length (printed [Print ''hello world'' :: (nat, nat) io])
               = length (fetch_all [greedy_example]
                   (filter_predictions graph_example (prediction_keys FLAGS_default)))"
    by (rule mp) (rule refl)
  with run ms show ?thesis by blast
qed

text \<open>
  C3, as stated, fails: the sentence written for the tokens \<open>hello wor@@ ld SEQUENCE_END\<close>
  is \<open>hello world\<close>, not the tokens joined on the delimiter.
\<close>

theorem printed_sentence_is_not_the_join:
  "main FLAGS_default graph_example (fetch_all [greedy_example]) unk_copy no_mapping
     = ([Print ''hello world''], None)
   \<and> predicted_tokens greedy_example
     = Some (Tokens1 [''hello'', ''wor@@'', ''ld'', ''SEQUENCE_END''])
   \<and> py_join (delimiter FLAGS_default) [''hello'', ''wor@@'', ''ld'', ''SEQUENCE_END'']
     = ''hello wor@@ ld SEQUENCE_END''
   \<and> ''hello world'' \<noteq> ''hello wor@@ ld SEQUENCE_END''"
proof -
  have "main FLAGS_default graph_example (fetch_all [greedy_example]) unk_copy no_mapping
          = ([Print ''hello world''], None)"
    by code_simp
  moreover have "predicted_tokens greedy_example
                   = Some (Tokens1 [''hello'', ''wor@@'', ''ld'', ''SEQUENCE_END''])"
    by (simp add: greedy_example_def)
  moreover have "py_join (delimiter FLAGS_default) [''hello'', ''wor@@'', ''ld'', ''SEQUENCE_END'']
                   = ''hello wor@@ ld SEQUENCE_END''"
    by (simp add: FLAGS_default_def)
  moreover have "''hello world'' \<noteq> ''hello wor@@ ld SEQUENCE_END''"
    by simp
  ultimately show ?thesis by blast
qed

section \<open>The archive of beam search traces\<close>

lemma dump_beams_step_unset: "dump_beams F = None \<Longrightarrow> dump_beams_step F d acc = Inr acc"
  by (simp add: dump_beams_step_def)

lemma dump_beams_step_set:
  assumes "dump_beams F = Some path" "dump_beams_step F d acc = Inr acc'"
  shows "map Some (predicted_ids acc') = map Some (predicted_ids acc) @ [beam_search_output_predicted_ids d]"
    and "map Some (beam_parent_ids acc') = map Some (beam_parent_ids acc) @ [beam_search_output_beam_parent_ids d]"
    and "map Some (scores acc') = map Some (scores acc) @ [beam_search_output_scores d]"
    and "map Some (log_probs acc') = map Some (log_probs acc) @ [beam_search_output_log_probs d]"
  using assms
  by (auto simp: dump_beams_step_def getitem_def split: option.splits)

lemma run_loop_beams_unset:
  "run_loop F unk_replace_fn idx ds st = (evs, Inr st') \<Longrightarrow> dump_beams F = None
     \<Longrightarrow> beam_accum st' = beam_accum st"
proof (induction ds arbitrary: idx st evs)
  case Nil
  then show ?case by simp
next
  case (Cons d ds)
  obtain ev1 r1 where body: "loop_body F unk_replace_fn idx d st = (ev1, r1)"
    by (cases "loop_body F unk_replace_fn idx d st")
  with Cons.prems obtain st1 where r1: "r1 = Inr st1"
    by (cases r1) auto
  obtain evs2 r2 where rest: "run_loop F unk_replace_fn (idx + 1) ds st1 = (evs2, r2)"
    by (cases "run_loop F unk_replace_fn (idx + 1) ds st1")
  with body r1 Cons.prems have "r2 = Inr st'" by simp
  with rest Cons.prems have "beam_accum st' = beam_accum st1"
    by (auto intro: Cons.IH)
  moreover from body r1 have "dump_beams_step F d (beam_accum st) = Inr (beam_accum st1)"
    by (auto dest: loop_body_done)
  ultimately show ?case
    using Cons.prems by (simp add: dump_beams_step_unset)
qed

lemma run_loop_beams_set:
  assumes "run_loop F unk_replace_fn idx ds st = (evs, Inr st')" "dump_beams F = Some path"
  shows "map Some (predicted_ids (beam_accum st'))
           = map Some (predicted_ids (beam_accum st)) @ map beam_search_output_predicted_ids ds
       \<and> map Some (beam_parent_ids (beam_accum st'))
           = map Some (beam_parent_ids (beam_accum st)) @ map beam_search_output_beam_parent_ids ds
       \<and> map Some (scores (beam_accum st'))
           = map Some (scores (beam_accum st)) @ map beam_search_output_scores ds
       \<and> map Some (log_probs (beam_accum st'))
           = map Some (log_probs (beam_accum st)) @ map beam_search_output_log_probs ds"
  using assms
proof (induction ds arbitrary: idx st evs)
  case Nil
  then show ?case by simp
next
  case (Cons d ds)
  obtain ev1 r1 where body: "loop_body F unk_replace_fn idx d st = (ev1, r1)"
    by (cases "loop_body F unk_replace_fn idx d st")
  with Cons.prems obtain st1 where r1: "r1 = Inr st1"
    by (cases r1) auto
  obtain evs2 r2 where rest: "run_loop F unk_replace_fn (idx + 1) ds st1 = (evs2, r2)"
    by (cases "run_loop F unk_replace_fn (idx + 1) ds st1")
  with body r1 Cons.prems have "r2 = Inr st'" by simp
  with rest have rest': "run_loop F unk_replace_fn (idx + 1) ds st1 = (evs2, Inr st')"
    by simp
  from body r1 have step: "dump_beams_step F d (beam_accum st) = Inr (beam_accum st1)"
    by (auto dest: loop_body_done)
  note one = dump_beams_step_set [OF Cons.prems(2) step]
  from Cons.IH [OF rest' Cons.prems(2)] show ?case
    by (simp add: one)
qed

lemma named_archives_write_beams:
  "named_archives (write_beams F st) =
     (case dump_beams F of
        None \<Rightarrow> []
      | Some path \<Rightarrow>
          [(ZIP_STORED, path, [(''predicted_ids'', predicted_ids (beam_accum st)),
                   (''beam_parent_ids'', beam_parent_ids (beam_accum st)),
                   (''scores'', scores (beam_accum st)),
                   (''log_probs'', log_probs (beam_accum st))])])"
  by (simp add: write_beams_def split: option.splits)

lemma main_archives:
  assumes run: "main F predictions create_predictions_iter unk_replace_ext get_unk_mapping = (evs, r)"
  shows "(r \<noteq> None \<longrightarrow> named_archives evs = [])
       \<and> (r = None \<longrightarrow>
            (\<exists>unk_replace_fn evs' st.
               run_loop F unk_replace_fn 0
                   (create_predictions_iter (filter_predictions predictions (prediction_keys F)))
                   accum_init = (evs', Inr st)
               \<and> named_archives evs = named_archives (write_beams F st)))"
proof (cases "main_setup F predictions unk_replace_ext get_unk_mapping")
  case (Inl e)
  with run show ?thesis by (auto simp: main_def)
next
  case (Inr p)
  obtain fetched unk_replace_fn where p: "p = (fetched, unk_replace_fn)"
    by (cases p)
  with Inr have fetched: "fetched = filter_predictions predictions (prediction_keys F)"
    by (auto dest: main_setup_fetched)
  obtain evs' r' where loop:
    "run_loop F unk_replace_fn 0 (create_predictions_iter fetched) accum_init = (evs', r')"
    by (cases "run_loop F unk_replace_fn 0 (create_predictions_iter fetched) accum_init")
  from run_loop_printed [OF loop] have quiet: "named_archives evs' = []"
    by simp
  show ?thesis
  proof (cases r')
    case (Inl e)
    with run Inr p loop quiet show ?thesis
      by (auto simp: main_def Let_def named_archives_append makedirs_quiet)
  next
    case r': (Inr st)
    with run Inr p loop quiet
    have "r = None" "named_archives evs = named_archives (write_beams F st)"
      by (auto simp: main_def Let_def named_archives_append makedirs_quiet write_attention_quiet)
    with loop r' fetched show ?thesis by blast
  qed
qed

text \<open>
  C4, as amended. When the \<open>dump_beams\<close> flag is set and \<open>main\<close> ends without an exception,
  it writes one archive of named arrays, not compressed (\<open>np.savez\<close>), to the file the
  flag names, holding exactly the four arrays \<open>predicted_ids\<close>, \<open>beam_parent_ids\<close>,
  \<open>scores\<close> and \<open>log_probs\<close>; each is the sequence of the corresponding
  \<open>beam_search_output.*\<close> values of the iterated predictions, in iteration order. When
  the flag is unset, and also when \<open>main\<close> ends with an exception, no such archive is
  written.
\<close>

theorem beam_archive_written:
  assumes "main F predictions create_predictions_iter unk_replace_ext get_unk_mapping = (evs, r)"
  shows "(dump_beams F = None \<longrightarrow> named_archives evs = [])
       \<and> (r \<noteq> None \<longrightarrow> named_archives evs = [])
       \<and> (\<forall>path. dump_beams F = Some path \<and> r = None \<longrightarrow>
            (\<exists>ids parents sc lp.
               named_archives evs =
                 [(ZIP_STORED, path, [(''predicted_ids'', ids), (''beam_parent_ids'', parents),
                          (''scores'', sc), (''log_probs'', lp)])]
               \<and> map Some ids = map beam_search_output_predicted_ids
                   (create_predictions_iter (filter_predictions predictions (prediction_keys F)))
               \<and> map Some parents = map beam_search_output_beam_parent_ids
                   (create_predictions_iter (filter_predictions predictions (prediction_keys F)))
               \<and> map Some sc = map beam_search_output_scores
                   (create_predictions_iter (filter_predictions predictions (prediction_keys F)))
               \<and> map Some lp = map beam_search_output_log_probs
                   (create_predictions_iter (filter_predictions predictions (prediction_keys F)))))"
proof -
  note arch = main_archives [OF assms]
  have unset: "dump_beams F = None \<longrightarrow> named_archives evs = []"
    using arch by (cases r) (auto simp: named_archives_write_beams)
  have failed: "r \<noteq> None \<longrightarrow> named_archives evs = []"
    using arch by blast
  have written: "\<forall>path. dump_beams F = Some path \<and> r = None \<longrightarrow>
            (\<exists>ids parents sc lp.
               named_archives evs =
                 [(ZIP_STORED, path, [(''predicted_ids'', ids), (''beam_parent_ids'', parents),
                          (''scores'', sc), (''log_probs'', lp)])]
               \<and> map Some ids = map beam_search_output_predicted_ids
                   (create_predictions_iter (filter_predictions predictions (prediction_keys F)))
               \<and> map Some parents = map beam_search_output_beam_parent_ids
                   (create_predictions_iter (filter_predictions predictions (prediction_keys F)))
               \<and> map Some sc = map beam_search_output_scores
                   (create_predictions_iter (filter_predictions predictions (prediction_keys F)))
               \<and> map Some lp = map beam_search_output_log_probs
                   (create_predictions_iter (filter_predictions predictions (prediction_keys F))))"
  proof (intro allI impI, elim conjE)
    fix path
    assume set: "dump_beams F = Some path" and ok: "r = None"
    from arch ok obtain unk_replace_fn evs' st where
      loop: "run_loop F unk_replace_fn 0
               (create_predictions_iter (filter_predictions predictions (prediction_keys F)))
               accum_init = (evs', Inr st)"
      and a: "named_archives evs = named_archives (write_beams F st)"
      by blast
    from run_loop_beams_set [OF loop set]
    have "map Some (predicted_ids (beam_accum st)) = map beam_search_output_predicted_ids
            (create_predictions_iter (filter_predictions predictions (prediction_keys F)))"
      and "map Some (beam_parent_ids (beam_accum st)) = map beam_search_output_beam_parent_ids
            (create_predictions_iter (filter_predictions predictions (prediction_keys F)))"
      and "map Some (scores (beam_accum st)) = map beam_search_output_scores
            (create_predictions_iter (filter_predictions predictions (prediction_keys F)))"
      and "map Some (log_probs (beam_accum st)) = map beam_search_output_log_probs
            (create_predictions_iter (filter_predictions predictions (prediction_keys F)))"
      by (simp_all add: accum_init_def)
    moreover from a set have "named_archives evs =
        [(ZIP_STORED, path, [(''predicted_ids'', predicted_ids (beam_accum st)),
                 (''beam_parent_ids'', beam_parent_ids (beam_accum st)),
                 (''scores'', scores (beam_accum st)),
                 (''log_probs'', log_probs (beam_accum st))])]"
      by (simp add: named_archives_write_beams)
    ultimately show "\<exists>ids parents sc lp.
               named_archives evs =
                 [(ZIP_STORED, path, [(''predicted_ids'', ids), (''beam_parent_ids'', parents),
                          (''scores'', sc), (''log_probs'', lp)])]
               \<and> map Some ids = map beam_search_output_predicted_ids
                   (create_predictions_iter (filter_predictions predictions (prediction_keys F)))
               \<and> map Some parents = map beam_search_output_beam_parent_ids
                   (create_predictions_iter (filter_predictions predictions (prediction_keys F)))
               \<and> map Some sc = map beam_search_output_scores
                   (create_predictions_iter (filter_predictions predictions (prediction_keys F)))
               \<and> map Some lp = map beam_search_output_log_probs
                   (create_predictions_iter (filter_predictions predictions (prediction_keys F)))"
      by blast
  qed
  from unset failed written show ?thesis by (intro conjI)
qed

theorem beam_archive_written_witness:
  "main (FLAGS_default \<lparr>dump_beams := Some ''beams.npz''\<rparr>) graph_example
       (fetch_all [beam_example, beam_example]) unk_copy no_mapping
     = ([Print ''the UNK'', Print ''the UNK'',
         Savez_kwds ZIP_STORED ''beams.npz''
           [(''predicted_ids'', [11, 11]), (''beam_parent_ids'', [12, 12]),
            (''scores'', [13, 13]), (''log_probs'', [14, 14])]], None)
   \<and> (\<exists>ids parents sc lp.
        named_archives
          [Print ''the UNK'', Print ''the UNK'',
           Savez_kwds ZIP_STORED ''beams.npz''
             [(''predicted_ids'', [11, 11]), (''beam_parent_ids'', [12, 12]),
              (''scores'', [13, 13]), (''log_probs'', [14, 14 :: nat])] :: (nat, nat) io]
          = [(ZIP_STORED, ''beams.npz'', [(''predicted_ids'', ids), (''beam_parent_ids'', parents),
                             (''scores'', sc), (''log_probs'', lp)])]
        \<and> map Some ids = [Some 11, Some 11] \<and> map Some parents = [Some 12, Some 12]
        \<and> map Some sc = [Some 13, Some 13] \<and> map Some lp = [Some 14, Some 14])"
proof -
  let ?F = "FLAGS_default \<lparr>dump_beams := Some ''beams.npz''\<rparr>"
  let ?evs = "[Print ''the UNK'', Print ''the UNK'',
         Savez_kwds ZIP_STORED ''beams.npz''
           [(''predicted_ids'', [11, 11]), (''beam_parent_ids'', [12, 12]),
            (''scores'', [13, 13]), (''log_probs'', [14, 14 :: nat])]] :: (nat, nat) io list"
  have run: "main ?F graph_example (fetch_all [beam_example, beam_example]) unk_copy no_mapping
               = (?evs, None)"
    by code_simp
  have cond: "dump_beams ?F = Some ''beams.npz'' \<and> (None :: error option) = None"
    by simp
  from beam_archive_written [OF run]
  have "\<forall>path. dump_beams ?F = Some path \<and> (None :: error option) = None \<longrightarrow>
            (\<exists>ids parents sc lp.
               named_archives ?evs =
                 [(ZIP_STORED, path, [(''predicted_ids'', ids), (''beam_parent_ids'', parents),
                          (''scores'', sc), (''log_probs'', lp)])]
               \<and> map Some ids = map beam_search_output_predicted_ids
                   (fetch_all [beam_example, beam_example] (filter_predictions graph_example (prediction_keys ?F)))
               \<and> map Some parents = map beam_search_output_beam_parent_ids
                   (fetch_all [beam_example, beam_example] (filter_predictions graph_example (prediction_keys ?F)))
               \<and> map Some sc = map beam_search_output_scores
                   (fetch_all [beam_example, beam_example] (filter_predictions graph_example (prediction_keys ?F)))
               \<and> map Some lp = map beam_search_output_log_probs
                   (fetch_all [beam_example, beam_example] (filter_predictions graph_example (prediction_keys ?F))))"
    by blast
  with cond have "\<exists>ids parents sc lp.
               named_archives ?evs =
                 [(ZIP_STORED, ''beams.npz'', [(''predicted_ids'', ids), (''beam_parent_ids'', parents),
                          (''scores'', sc), (''log_probs'', lp)])]
               \<and> map Some ids = map beam_search_output_predicted_ids
                   (fetch_all [beam_example, beam_example] (filter_predictions graph_example (prediction_keys ?F)))
               \<and> map Some parents = map beam_search_output_beam_parent_ids
                   (fetch_all [beam_example, beam_example] (filter_predictions graph_example (prediction_keys ?F)))
               \<and> map Some sc = map beam_search_output_scores
                   (fetch_all [beam_example, beam_example] (filter_predictions graph_example (prediction_keys ?F)))
               \<and> map Some lp = map beam_search_output_log_probs
                   (fetch_all [beam_example, beam_example] (filter_predictions graph_example (prediction_keys ?F)))"
    by blast
  then have "\<exists>ids parents sc lp.
        named_archives ?evs
          = [(ZIP_STORED, ''beams.npz'', [(''predicted_ids'', ids), (''beam_parent_ids'', parents),
                             (''scores'', sc), (''log_probs'', lp)])]
        \<and> map Some ids = [Some 11, Some 11] \<and> map Some parents = [Some 12, Some 12]
        \<and> map Some sc = [Some 13, Some 13] \<and> map Some lp = [Some 14, Some 14]"
    by (simp add: fetch_all_def beam_example_def)
  with run show ?thesis by (rule conjI)
qed

text \<open>
  C4, as stated, fails in two ways. The archive \<open>main\<close> writes for the beam search
  example is stored, not compressed. And with the flag set, a prediction without the
  \<open>beam_search_output.*\<close> keys ends \<open>main\<close> with a \<open>KeyError\<close> after the first sentence,
  and no archive is written.
\<close>

theorem beam_archive_not_compressed_or_missing:
  "main (FLAGS_default \<lparr>dump_beams := Some ''beams.npz''\<rparr>) graph_example
       (fetch_all [beam_example, beam_example]) unk_copy no_mapping
     = ([Print ''the UNK'', Print ''the UNK'',
         Savez_kwds ZIP_STORED ''beams.npz''
           [(''predicted_ids'', [11, 11]), (''beam_parent_ids'', [12, 12]),
            (''scores'', [13, 13]), (''log_probs'', [14, 14])]], None)
   \<and> ZIP_STORED \<noteq> ZIP_DEFLATED
   \<and> dump_beams (FLAGS_default \<lparr>dump_beams := Some ''beams.npz''\<rparr>) = Some ''beams.npz''
   \<and> main (FLAGS_default \<lparr>dump_beams := Some ''beams.npz''\<rparr>) graph_example
       (fetch_all [beam_example, greedy_example]) unk_copy no_mapping
     = ([Print ''the UNK''], Some (KeyError ''beam_search_output.predicted_ids''))
   \<and> named_archives [Print ''the UNK'' :: (nat, nat) io] = []"
proof -
  have "main (FLAGS_default \<lparr>dump_beams := Some ''beams.npz''\<rparr>) graph_example
       (fetch_all [beam_example, beam_example]) unk_copy no_mapping
     = ([Print ''the UNK'', Print ''the UNK'',
         Savez_kwds ZIP_STORED ''beams.npz''
           [(''predicted_ids'', [11, 11]), (''beam_parent_ids'', [12, 12]),
            (''scores'', [13, 13]), (''log_probs'', [14, 14])]], None)"
    by code_simp
  moreover have "ZIP_STORED \<noteq> ZIP_DEFLATED"
    by simp
  moreover have "dump_beams (FLAGS_default \<lparr>dump_beams := Some ''beams.npz''\<rparr>) = Some ''beams.npz''"
    by simp
  moreover have "main (FLAGS_default \<lparr>dump_beams := Some ''beams.npz''\<rparr>) graph_example
       (fetch_all [beam_example, greedy_example]) unk_copy no_mapping
     = ([Print ''the UNK''], Some (KeyError ''beam_search_output.predicted_ids''))"
    by code_simp
  moreover have "named_archives [Print ''the UNK'' :: (nat, nat) io] = []"
    by simp
  ultimately show ?thesis by (intro conjI)
qed

section \<open>The tokens of one prediction\<close>

lemma output_tokens_done:
  assumes "output_tokens unk_replace_fn d = Inr out"
  shows "\<exists>ptoks toks src sl.
           predicted_tokens d = Some ptoks \<and> first_beam ptoks = Inr toks
         \<and> features_source_tokens d = Some src \<and> features_source_len d = Some sl
         \<and> (case unk_replace_fn of
               None \<Rightarrow> out = toks
             | Some f \<Rightarrow> \<exists>att. attention_scores d = Some att
                          \<and> out = f src toks (map (py_slice_to (sl - 1)) att))"
  using assms
  by (auto simp: output_tokens_def getitem_def split: option.splits sum.splits)

lemma first_beam_done:
  "first_beam ptoks = Inr toks \<Longrightarrow>
     (case ptoks of
        Tokens1 ts \<Rightarrow> toks = ts
      | Tokens2 rows \<Rightarrow> toks = map (\<lambda>r. r ! 0) rows \<and> [] \<notin> set rows)"
  by (auto simp: first_beam_def split: tokens.splits if_splits)

text \<open>
  C10. Whenever a prediction is processed, the tokens that go into UNK replacement and
  into the printed sentence are those of beam 0, the first column, when
  \<open>predicted_tokens\<close> has more than one dimension, and the array as it is when it has
  one: without UNK replacement the sentence is made from these tokens, with UNK
  replacement from what the replacement function returns for them.
\<close>

theorem beam_zero_tokens_are_used:
  assumes "loop_body F unk_replace_fn idx d st = (ev, Inr st')"
      and "predicted_tokens d = Some ptoks"
  shows "\<exists>toks.
           (case ptoks of
              Tokens1 ts \<Rightarrow> toks = ts
            | Tokens2 rows \<Rightarrow> toks = map (\<lambda>r. r ! 0) rows \<and> [] \<notin> set rows)
         \<and> (case unk_replace_fn of
               None \<Rightarrow> printed ev = [make_sent (delimiter F) toks]
             | Some f \<Rightarrow>
                 \<exists>src sl att. features_source_tokens d = Some src
                   \<and> features_source_len d = Some sl \<and> attention_scores d = Some att
                   \<and> printed ev =
                       [make_sent (delimiter F) (f src toks (map (py_slice_to (sl - 1)) att))])"
proof -
  from loop_body_done [OF assms(1)] obtain out where
    out: "output_tokens unk_replace_fn d = Inr out"
    and pr: "printed ev = [make_sent (delimiter F) out]"
    by blast
  from output_tokens_done [OF out] assms(2) obtain toks src sl where
    beam: "first_beam ptoks = Inr toks"
    and src: "features_source_tokens d = Some src" and sl: "features_source_len d = Some sl"
    and repl: "case unk_replace_fn of
                 None \<Rightarrow> out = toks
               | Some f \<Rightarrow> \<exists>att. attention_scores d = Some att
                            \<and> out = f src toks (map (py_slice_to (sl - 1)) att)"
    by auto
  have "case unk_replace_fn of
          None \<Rightarrow> printed ev = [make_sent (delimiter F) toks]
        | Some f \<Rightarrow>
            \<exists>src sl att. features_source_tokens d = Some src
              \<and> features_source_len d = Some sl \<and> attention_scores d = Some att
              \<and> printed ev =
                  [make_sent (delimiter F) (f src toks (map (py_slice_to (sl - 1)) att))]"
    using repl src sl pr by (auto split: option.splits)
  with first_beam_done [OF beam] show ?thesis by blast
qed

theorem beam_zero_tokens_are_used_witness:
  "loop_body FLAGS_default (Some (unk_copy None)) 0 beam_example accum_init
     = ([Print ''the Haus''], Inr accum_init)
   \<and> predicted_tokens beam_example
     = Some (Tokens2 [[''the'', ''a''], [''UNK'', ''house''], [''SEQUENCE_END'', ''SEQUENCE_END'']])
   \<and> (\<exists>toks.
         (case Tokens2 [[''the'', ''a''], [''UNK'', ''house''], [''SEQUENCE_END'', ''SEQUENCE_END'']] of
            Tokens1 ts \<Rightarrow> toks = ts
          | Tokens2 rows \<Rightarrow> toks = map (\<lambda>r. r ! 0) rows \<and> [] \<notin> set rows)
       \<and> (case Some (unk_copy None) of
             None \<Rightarrow> printed [Print ''the Haus'' :: (nat, nat) io]
                       = [make_sent (delimiter FLAGS_default) toks]
           | Some f \<Rightarrow>
               \<exists>src sl att. features_source_tokens beam_example = Some src
                 \<and> features_source_len beam_example = Some sl
                 \<and> attention_scores beam_example = Some att
                 \<and> printed [Print ''the Haus'' :: (nat, nat) io] =
                     [make_sent (delimiter FLAGS_default)
                        (f src toks (map (py_slice_to (sl - 1)) att))]))"
proof -
  have body: "loop_body FLAGS_default (Some (unk_copy None)) 0 beam_example accum_init
                = ([Print ''the Haus''], Inr accum_init)"
    by code_simp
  have toks: "predicted_tokens beam_example
     = Some (Tokens2 [[''the'', ''a''], [''UNK'', ''house''], [''SEQUENCE_END'', ''SEQUENCE_END'']])"
    by (simp add: beam_example_def)
  from body toks beam_zero_tokens_are_used [OF body toks] show ?thesis
    by (intro conjI)
qed

section \<open>UNK replacement\<close>

lemma main_setup_unk_replace_fn:
  assumes "main_setup F predictions unk_replace_ext get_unk_mapping = Inr (fetched, unk_replace_fn)"
  shows "unk_replace_fn =
           (if unk_replace F
            then Some (unk_replace_ext (map_option get_unk_mapping (unk_mapping F)))
            else None)"
  using assms
  by (auto simp: main_setup_def Let_def split: if_splits option.splits)

lemma py_slice_to_take: "0 \<le> n \<Longrightarrow> py_slice_to n xs = take (nat n) xs"
  by (simp add: py_slice_to_def)

text \<open>
  Whatever the replacement function is, for a source length of at least one it is given
  the first \<open>source_len - 1\<close> columns of the prediction's attention scores.
\<close>

lemma unk_replace_fn_gets_truncated_scores:
  assumes "main_setup F predictions unk_replace_ext get_unk_mapping = Inr (fetched, unk_replace_fn)"
      and "unk_replace F"
      and "output_tokens unk_replace_fn d = Inr out"
      and "features_source_len d = Some source_len"
      and "1 \<le> source_len"
  shows "\<exists>mapping src ptoks toks att.
           unk_replace_fn = Some (unk_replace_ext mapping)
         \<and> features_source_tokens d = Some src
         \<and> predicted_tokens d = Some ptoks \<and> first_beam ptoks = Inr toks
         \<and> attention_scores d = Some att
         \<and> out = unk_replace_ext mapping src toks (map (take (nat (source_len - 1))) att)"
proof -
  from main_setup_unk_replace_fn [OF assms(1)] assms(2)
  have fn: "unk_replace_fn = Some (unk_replace_ext (map_option get_unk_mapping (unk_mapping F)))"
    by simp
  from output_tokens_done [OF assms(3)] assms(4) fn obtain ptoks toks src att where
    "predicted_tokens d = Some ptoks" "first_beam ptoks = Inr toks"
    "features_source_tokens d = Some src" "attention_scores d = Some att"
    and out: "out = unk_replace_ext (map_option get_unk_mapping (unk_mapping F)) src toks
                (map (py_slice_to (source_len - 1)) att)"
    by auto
  moreover from assms(5)
  have "map (py_slice_to (source_len - 1)) att = map (take (nat (source_len - 1))) att"
    by (simp add: py_slice_to_take)
  with out have "out = unk_replace_ext (map_option get_unk_mapping (unk_mapping F)) src toks
                   (map (take (nat (source_len - 1))) att)"
    by simp
  ultimately show ?thesis
    using fn by blast
qed

lemma argmax_from_bound: "best_i < i \<Longrightarrow> argmax_from best_i best i xs < i + length xs"
proof (induction xs arbitrary: best_i best i)
  case Nil
  then show ?case by simp
next
  case (Cons x xs)
  have new: "argmax_from i x (i + 1) xs < (i + 1) + length xs"
    by (rule Cons.IH) simp
  have old: "argmax_from best_i best (i + 1) xs < (i + 1) + length xs"
    using Cons.prems by (intro Cons.IH) simp
  from new old show ?case by simp
qed

text \<open>
  What the model of \<open>unk_replace\<close> returns for one token: the token itself, or, for an
  \<open>UNK\<close>, the source token at a position that has a score in the row, or the entry of
  the mapping for that source token.
\<close>

lemma replace_token_cases:
  "replace_token mapping src (t, row) = t
   \<or> (t = ''UNK'' \<and>
       (\<exists>j. j < length row \<and> j < length src \<and>
          (replace_token mapping src (t, row) = src ! j
           \<or> (\<exists>table. mapping = Some table
                  \<and> table (src ! j) = Some (replace_token mapping src (t, row))))))"
proof (cases row)
  case Nil
  then show ?thesis by simp
next
  case (Cons x xs)
  have "argmax_from 0 x 1 xs < length row"
    using argmax_from_bound [of 0 1 x xs] Cons by simp
  with Cons show ?thesis
    by (auto simp: Let_def split: option.splits)
qed

lemma inference_unk_replace_positions:
  assumes "\<forall>row \<in> set att. int (length row) \<le> m"
      and "i < length (inference_unk_replace mapping src toks att)"
  shows "inference_unk_replace mapping src toks att ! i = toks ! i
         \<or> (toks ! i = ''UNK'' \<and>
             (\<exists>j. int j < m \<and> j < length src \<and>
                (inference_unk_replace mapping src toks att ! i = src ! j
                 \<or> (\<exists>table. mapping = Some table
                        \<and> table (src ! j) = Some (inference_unk_replace mapping src toks att ! i)))))"
proof -
  let ?r = "replace_token mapping src (toks ! i, att ! i)"
  from assms(2) have i: "i < length toks" "i < length att"
    by (simp_all add: inference_unk_replace_def)
  then have out: "inference_unk_replace mapping src toks att ! i = ?r"
    by (simp add: inference_unk_replace_def)
  from i assms(1) have len: "int (length (att ! i)) \<le> m"
    by simp
  from replace_token_cases [of mapping src "toks ! i" "att ! i"]
  consider (kept) "?r = toks ! i"
    | (replaced) j where "toks ! i = ''UNK''" "j < length (att ! i)" "j < length src"
        "?r = src ! j \<or> (\<exists>table. mapping = Some table \<and> table (src ! j) = Some ?r)"
    by blast
  then show ?thesis
  proof cases
    case kept
    then show ?thesis by (simp add: out)
  next
    case replaced
    from replaced(2) len have "int j < m" by simp
    with replaced show ?thesis
      unfolding out by blast
  qed
qed

text \<open>
  C8, as amended. When UNK replacement is enabled, the attention scores passed to the
  replacement function for a prediction whose source length is at least one are the
  first \<open>source_len - 1\<close> columns of the prediction's scores. So every token of the
  result of \<open>unk_replace\<close> (as modelled from the spec) is the predicted token at its
  place or replaces an \<open>UNK\<close> there by the source token at a position strictly before
  \<open>source_len - 1\<close>, the final source position, or by the entry of the mapping for that
  source token: the position of the \<open>SEQUENCE_END\<close> marker is never selected.
\<close>

theorem unk_replacement_scores_are_truncated:
  assumes "main_setup F predictions inference_unk_replace get_unk_mapping
             = Inr (fetched, unk_replace_fn)"
      and "unk_replace F"
      and "output_tokens unk_replace_fn d = Inr out"
      and "features_source_len d = Some source_len"
      and "1 \<le> source_len"
  shows "\<exists>mapping src ptoks toks att.
           unk_replace_fn = Some (inference_unk_replace mapping)
         \<and> features_source_tokens d = Some src
         \<and> predicted_tokens d = Some ptoks \<and> first_beam ptoks = Inr toks
         \<and> attention_scores d = Some att
         \<and> out = inference_unk_replace mapping src toks (map (take (nat (source_len - 1))) att)
         \<and> (\<forall>i < length out.
               out ! i = toks ! i
               \<or> (toks ! i = ''UNK'' \<and>
                   (\<exists>j. int j < source_len - 1 \<and> j < length src \<and>
                      (out ! i = src ! j
                       \<or> (\<exists>table. mapping = Some table \<and> table (src ! j) = Some (out ! i))))))"
proof -
  from unk_replace_fn_gets_truncated_scores [OF assms] obtain mapping src ptoks toks att where
    fn: "unk_replace_fn = Some (inference_unk_replace mapping)"
    and keys: "features_source_tokens d = Some src" "predicted_tokens d = Some ptoks"
      "first_beam ptoks = Inr toks" "attention_scores d = Some att"
    and out: "out = inference_unk_replace mapping src toks (map (take (nat (source_len - 1))) att)"
    by blast
  have short: "\<forall>row \<in> set (map (take (nat (source_len - 1))) att).
                 int (length row) \<le> source_len - 1"
    using assms(5) by auto
  have "\<forall>i < length out.
          out ! i = toks ! i
          \<or> (toks ! i = ''UNK'' \<and>
              (\<exists>j. int j < source_len - 1 \<and> j < length src \<and>
                 (out ! i = src ! j
                  \<or> (\<exists>table. mapping = Some table \<and> table (src ! j) = Some (out ! i)))))"
  proof (intro allI impI)
    fix i
    assume "i < length out"
    then have "i < length (inference_unk_replace mapping src toks
                 (map (take (nat (source_len - 1))) att))"
      by (simp only: out)
    from inference_unk_replace_positions [OF short this]
    show "out ! i = toks ! i
          \<or> (toks ! i = ''UNK'' \<and>
              (\<exists>j. int j < source_len - 1 \<and> j < length src \<and>
                 (out ! i = src ! j
                  \<or> (\<exists>table. mapping = Some table \<and> table (src ! j) = Some (out ! i)))))"
      by (simp only: out)
  qed
  with fn keys out show ?thesis by blast
qed

theorem unk_replacement_scores_are_truncated_witness:
  "main_setup (FLAGS_default \<lparr>unk_replace := True\<rparr>) graph_example inference_unk_replace no_table
     = Inr (filter_predictions graph_example
              (insert ''attention_scores'' (prediction_keys (FLAGS_default \<lparr>unk_replace := True\<rparr>))),
            Some (inference_unk_replace None :: string list \<Rightarrow> string list \<Rightarrow> nat list list \<Rightarrow> string list))
   \<and> unk_replace (FLAGS_default \<lparr>unk_replace := True\<rparr>)
   \<and> output_tokens (Some (inference_unk_replace None)) beam_example
       = Inr [''the'', ''Haus'', ''SEQUENCE_END'']
   \<and> features_source_len beam_example = Some 3
   \<and> (1 :: int) \<le> 3
   \<and> (\<exists>mapping src ptoks toks att.
         Some (inference_unk_replace None :: string list \<Rightarrow> string list \<Rightarrow> nat list list \<Rightarrow> string list)
           = Some (inference_unk_replace mapping)
       \<and> features_source_tokens beam_example = Some src
       \<and> predicted_tokens beam_example = Some ptoks \<and> first_beam ptoks = Inr toks
       \<and> attention_scores beam_example = Some att
       \<and> [''the'', ''Haus'', ''SEQUENCE_END'']
           = inference_unk_replace mapping src toks (map (take (nat (3 - 1))) att)
       \<and> (\<forall>i < length [''the'', ''Haus'', ''SEQUENCE_END''].
             [''the'', ''Haus'', ''SEQUENCE_END''] ! i = toks ! i
             \<or> (toks ! i = ''UNK'' \<and>
                 (\<exists>j. int j < 3 - 1 \<and> j < length src \<and>
                    ([''the'', ''Haus'', ''SEQUENCE_END''] ! i = src ! j
                     \<or> (\<exists>table. mapping = Some table
                            \<and> table (src ! j) = Some ([''the'', ''Haus'', ''SEQUENCE_END''] ! i)))))))"
proof -
  let ?F = "FLAGS_default \<lparr>unk_replace := True\<rparr>"
  have h1: "main_setup ?F graph_example inference_unk_replace no_table
              = Inr (filter_predictions graph_example (insert ''attention_scores'' (prediction_keys ?F)),
                     Some (inference_unk_replace None :: string list \<Rightarrow> string list \<Rightarrow> nat list list \<Rightarrow> string list))"
    by (simp add: main_setup_def FLAGS_default_def graph_example_def)
  have h2: "unk_replace ?F"
    by simp
  have h3: "output_tokens (Some (inference_unk_replace None)) beam_example
              = Inr [''the'', ''Haus'', ''SEQUENCE_END'']"
    by (simp add: output_tokens_def getitem_def first_beam_def beam_example_def
          py_slice_to_def inference_unk_replace_def)
  have h4: "features_source_len beam_example = Some 3"
    by (simp add: beam_example_def)
  have h5: "(1 :: int) \<le> 3"
    by simp
  from h1 h2 h3 h4 h5 unk_replacement_scores_are_truncated [OF h1 h2 h3 h4 h5] show ?thesis
    by (intro conjI)
qed

text \<open>
  C8, as stated, fails for a prediction whose source length is zero: the stop of the
  slice is then \<open>-1\<close>, which Python counts from the end, so the scores passed are all
  columns but the last and not the first \<open>source_len - 1\<close> (none), and the \<open>UNK\<close> is
  replaced by the source token at position 1, which is not before position \<open>-1\<close>.
\<close>

theorem unk_replacement_with_empty_source:
  "features_source_len empty_source_example = Some 0
   \<and> attention_scores empty_source_example = Some [[1, 5, 2]]
   \<and> map (py_slice_to (0 - 1)) [[1, 5, 2 :: nat]] = [[1, 5]]
   \<and> map (take (nat (0 - 1))) [[1, 5, 2 :: nat]] = [[]]
   \<and> output_tokens (Some (inference_unk_replace None)) empty_source_example = Inr [''b'']
   \<and> features_source_tokens empty_source_example = Some [''a'', ''b'', ''c'']"
  by (simp add: empty_source_example_def no_keys_def py_slice_to_def output_tokens_def
        getitem_def first_beam_def inference_unk_replace_def)

text \<open>
  Given all three columns of the scores of the beam search example, the replacement
  function would copy the end marker of the source.
\<close>

lemma unk_replace_without_truncation:
  "inference_unk_replace None [''das'', ''Haus'', ''SEQUENCE_END'']
       [''the'', ''UNK'', ''SEQUENCE_END''] [[5, 1, 0], [1, 2, 9], [0, 0, 7 :: nat]]
     = [''the'', ''SEQUENCE_END'', ''SEQUENCE_END'']"
  by (simp add: inference_unk_replace_def)

section \<open>Learning rate decay\<close>

lemma exponential_decay_fn_no_min:
  "exponential_decay_fn decay_steps decay_rate start_decay_at stop_decay_at None lr step =
     lr * decay_rate powr
       (real_of_int (max start_decay_at (min step stop_decay_at) - start_decay_at)
          / real_of_int decay_steps)"
  by (simp add: exponential_decay_fn_def Let_def)

lemma exponential_decay_fn_min:
  "exponential_decay_fn decay_steps decay_rate start_decay_at stop_decay_at (Some m) lr step =
     max (exponential_decay_fn decay_steps decay_rate start_decay_at stop_decay_at None lr step) m"
  by (simp add: exponential_decay_fn_def Let_def)

text \<open>
  C5, for the model of the decay function. With a positive number of decay steps, a
  positive decay rate and \<open>start_decay_at\<close> not after \<open>stop_decay_at\<close>, the function
  for \<open>"exponential_decay"\<close> without a minimum rate returns \<open>lr\<close> unchanged before
  \<open>start_decay_at\<close>, \<open>lr * decay_rate ^ ((step - start_decay_at) / decay_steps)\<close> from
  \<open>start_decay_at\<close> to \<open>stop_decay_at\<close>, and the value it has at \<open>stop_decay_at\<close> after
  that. With a minimum rate it returns the larger of this value and the minimum, so
  never less than the minimum.
\<close>

theorem exponential_decay_piecewise:
  assumes "0 < decay_steps" and "0 < decay_rate" and "start_decay_at \<le> stop_decay_at"
  shows "(step < start_decay_at \<longrightarrow>
            exponential_decay_fn decay_steps decay_rate start_decay_at stop_decay_at None lr step
              = lr)
       \<and> (start_decay_at \<le> step \<and> step \<le> stop_decay_at \<longrightarrow>
            exponential_decay_fn decay_steps decay_rate start_decay_at stop_decay_at None lr step
              = lr * decay_rate powr
                  (real_of_int (step - start_decay_at) / real_of_int decay_steps))
       \<and> (stop_decay_at < step \<longrightarrow>
            exponential_decay_fn decay_steps decay_rate start_decay_at stop_decay_at None lr step
              = lr * decay_rate powr
                  (real_of_int (stop_decay_at - start_decay_at) / real_of_int decay_steps))
       \<and> exponential_decay_fn decay_steps decay_rate start_decay_at stop_decay_at (Some m) lr step
           = max (exponential_decay_fn decay_steps decay_rate start_decay_at stop_decay_at None
                    lr step) m
       \<and> m \<le> exponential_decay_fn decay_steps decay_rate start_decay_at stop_decay_at (Some m)
                lr step"
proof (intro conjI impI)
  assume "step < start_decay_at"
  then have "max start_decay_at (min step stop_decay_at) = start_decay_at"
    by simp
  with assms(2)
  show "exponential_decay_fn decay_steps decay_rate start_decay_at stop_decay_at None lr step = lr"
    by (simp add: exponential_decay_fn_no_min)
next
  assume "start_decay_at \<le> step \<and> step \<le> stop_decay_at"
  then have "max start_decay_at (min step stop_decay_at) = step"
    by simp
  then show "exponential_decay_fn decay_steps decay_rate start_decay_at stop_decay_at None lr step
               = lr * decay_rate powr
                   (real_of_int (step - start_decay_at) / real_of_int decay_steps)"
    by (simp only: exponential_decay_fn_no_min)
next
  assume "stop_decay_at < step"
  with assms(3) have "max start_decay_at (min step stop_decay_at) = stop_decay_at"
    by simp
  then show "exponential_decay_fn decay_steps decay_rate start_decay_at stop_decay_at None lr step
               = lr * decay_rate powr
                   (real_of_int (stop_decay_at - start_decay_at) / real_of_int decay_steps)"
    by (simp only: exponential_decay_fn_no_min)
next
  show "exponential_decay_fn decay_steps decay_rate start_decay_at stop_decay_at (Some m) lr step
          = max (exponential_decay_fn decay_steps decay_rate start_decay_at stop_decay_at None
                   lr step) m"
    by (rule exponential_decay_fn_min)
next
  show "m \<le> exponential_decay_fn decay_steps decay_rate start_decay_at stop_decay_at (Some m)
               lr step"
    by (simp add: exponential_decay_fn_min)
qed

text \<open>The theorem at the calls of \<open>TestLRDecay\<close>.\<close>

theorem exponential_decay_piecewise_witness:
  "(0 :: int) < 10 \<and> (0 :: real) < 9 / 10 \<and> (100 :: int) \<le> 1000
   \<and> exponential_decay_fn 10 (9 / 10) 100 1000 None 1 50 = 1
   \<and> exponential_decay_fn 10 (9 / 10) 100 1000 None 1 115
       = 1 * (9 / 10) powr (real_of_int (115 - 100) / real_of_int 10)
   \<and> exponential_decay_fn 10 (9 / 10) 100 1000 None 1 5000
       = 1 * (9 / 10) powr (real_of_int (1000 - 100) / real_of_int 10)
   \<and> 1 / 100 \<le> exponential_decay_fn 10 (9 / 10) 100 1000 (Some (1 / 100)) 1 900"
proof -
  have h1: "(0 :: int) < 10" and h2: "(0 :: real) < 9 / 10" and h3: "(100 :: int) \<le> 1000"
    by simp_all
  note inst = exponential_decay_piecewise [OF h1 h2 h3]
  from inst [of 50 1] have "(50 :: int) < 100 \<longrightarrow>
      exponential_decay_fn 10 (9 / 10) 100 1000 None 1 50 = 1"
    by blast
  then have before: "exponential_decay_fn 10 (9 / 10) 100 1000 None 1 50 = 1"
    by (rule mp) simp
  from inst [of 115 1] have "(100 :: int) \<le> 115 \<and> (115 :: int) \<le> 1000 \<longrightarrow>
      exponential_decay_fn 10 (9 / 10) 100 1000 None 1 115
        = 1 * (9 / 10) powr (real_of_int (115 - 100) / real_of_int 10)"
    by blast
  then have between: "exponential_decay_fn 10 (9 / 10) 100 1000 None 1 115
        = 1 * (9 / 10) powr (real_of_int (115 - 100) / real_of_int 10)"
    by (rule mp) simp
  from inst [of 5000 1] have "(1000 :: int) < 5000 \<longrightarrow>
      exponential_decay_fn 10 (9 / 10) 100 1000 None 1 5000
        = 1 * (9 / 10) powr (real_of_int (1000 - 100) / real_of_int 10)"
    by blast
  then have after: "exponential_decay_fn 10 (9 / 10) 100 1000 None 1 5000
        = 1 * (9 / 10) powr (real_of_int (1000 - 100) / real_of_int 10)"
    by (rule mp) simp
  from inst [of 900 1 "1 / 100"]
  have least: "1 / 100 \<le> exponential_decay_fn 10 (9 / 10) 100 1000 (Some (1 / 100)) 1 900"
    by blast
  from h1 h2 h3 before between after least show ?thesis
    by (intro conjI)
qed

text \<open>
  The value \<open>test_decay_with_min\<close> expects: at step 900 the decayed rate is below the
  minimum, and the minimum is returned.
\<close>

lemma exponential_decay_test_with_min:
  "exponential_decay_fn 10 (9 / 10) 100 1000 (Some (1 / 100)) 1 900 = 1 / 100"
proof -
  have "(9 / 10 :: real) powr 80 = (9 / 10) ^ 80"
    by (simp add: powr_numeral)
  also have "\<dots> \<le> 1 / 100"
    by (simp add: power_divide)
  finally have "(9 / 10 :: real) powr 80 \<le> 1 / 100" .
  then show ?thesis
    by (simp add: exponential_decay_fn_def Let_def max_def)
qed

end
